theory Spec2Isabelle
  imports Main
begin

section \<open>The installer's world: filesystem, console and exceptions\<close>

text \<open>
  The installer (\<^verbatim>\<open>_install.py\<close>) talks to the operating system. The model makes that
  explicit: a \<open>world\<close> holds what \<^verbatim>\<open>stat\<close> answers for every path string, the
  lines still waiting on standard input, the logger's DEBUG switch, and a log of every
  operating-system call and console write the program has made, in order. Every
  function of the source that touches the system takes a world and returns the new one.
  An entry \<open>Inr line\<close> of \<open>stdin\<close> is a line the user types; \<open>Inl e\<close> is an
  exception raised while \<^verbatim>\<open>input()\<close> waits (the user's interrupt); at the end of the
  list \<^verbatim>\<open>input()\<close> raises \<^verbatim>\<open>EOFError\<close>.

  The filesystem changes only through what the program itself does: no other process
  is modelled. \<open>fs w p\<close> is the kind of the node the path string \<open>p\<close> leads to (links
  followed), or \<open>None\<close> when there is none, so \<^verbatim>\<open>os.path.exists\<close>, \<^verbatim>\<open>os.path.isdir\<close>
  and \<^verbatim>\<open>os.path.isfile\<close> are three readings of it. The script needs Python 3.8
  (\<^verbatim>\<open>copytree(..., dirs_exist_ok=True)\<close>), where a \<^verbatim>\<open>dict\<close> keeps insertion order.
\<close>

datatype kind = RegularFile | Directory | OtherNode

type_synonym filesystem = "string \<Rightarrow> kind option"

text \<open>
  Python exceptions that the modelled code can meet. \<^verbatim>\<open>EnvironmentError\<close> and
  \<^verbatim>\<open>WindowsError\<close> are aliases of \<^verbatim>\<open>OSError\<close> in Python 3; \<^verbatim>\<open>shutil.Error\<close> is a
  subclass of it. \<open>Error\<close> is the script's own exception class.
\<close>

datatype exc =
    Error string
  | OSError string
  | CalledProcessError
  | GetoptError string
  | KeyboardInterrupt
  | SystemExit int
  | EOFError
  | IndexError
  | KeyError
  | ValueError
  | OtherException string

text \<open>
  What the program does to the outside, as it is logged. \<open>StdoutWriteDoc\<close> is
  \<^verbatim>\<open>sys.stdout.write(__doc__)\<close>; \<open>PrintReport\<close> is the final report of \<^verbatim>\<open>install\<close>,
  with the values that fill its format string; \<open>WindowsInstall\<close> stands for all that
  \<^verbatim>\<open>install\<close> does on Windows once the target is validated.
\<close>

datatype event =
    IsDir string
  | IsFile string
  | Exists string
  | Which string
  | Print string
  | PrintList "string list"
  | PrintReport "string list"
  | StdoutWrite string
  | StdoutWriteDoc
  | LogError string
  | LogDebug string
  | PrintTraceback
  | ReadLine
  | Chdir string
  | Subprocess "string list"
  | OsSystem string
  | CopyTree string string
  | RelocatePython string bool bool
  | RootifyRpath string
  | WriteFile string string
  | WindowsInstall string bool bool

record world =
  fs :: filesystem
  stdin :: "(exc + string) list"
  debug :: bool
  log :: "event list"

text \<open>Events that only ask the filesystem a question.\<close>

fun is_query :: "event \<Rightarrow> bool" where
  "is_query (IsDir p) = True"
| "is_query (IsFile p) = True"
| "is_query (Exists p) = True"
| "is_query (Which p) = True"
| "is_query e = False"

text \<open>Events that only write to the console or the logger.\<close>

fun is_console :: "event \<Rightarrow> bool" where
  "is_console (Print s) = True"
| "is_console (PrintList ss) = True"
| "is_console (PrintReport ss) = True"
| "is_console (StdoutWrite s) = True"
| "is_console StdoutWriteDoc = True"
| "is_console (LogError s) = True"
| "is_console (LogDebug s) = True"
| "is_console PrintTraceback = True"
| "is_console e = False"

text \<open>Events that can create, delete or change files or directories.\<close>

fun is_mutation :: "event \<Rightarrow> bool" where
  "is_mutation (CopyTree src dst) = True"
| "is_mutation (RelocatePython p v u) = True"
| "is_mutation (RootifyRpath p) = True"
| "is_mutation (WriteFile p s) = True"
| "is_mutation (WindowsInstall p r a) = True"
| "is_mutation (OsSystem c) = True"
| "is_mutation e = False"

definition emit :: "event \<Rightarrow> world \<Rightarrow> world" where
  "emit e w = w\<lparr>log := log w @ [e]\<rparr>"

definition os_path_isdir :: "string \<Rightarrow> world \<Rightarrow> bool \<times> world" where
  "os_path_isdir p w = (fs w p = Some Directory, emit (IsDir p) w)"

definition os_path_isfile :: "string \<Rightarrow> world \<Rightarrow> bool \<times> world" where
  "os_path_isfile p w = (fs w p = Some RegularFile, emit (IsFile p) w)"

definition os_path_exists :: "string \<Rightarrow> world \<Rightarrow> bool \<times> world" where
  "os_path_exists p w = (fs w p \<noteq> None, emit (Exists p) w)"

text \<open>
  \<^verbatim>\<open>os.path.join(a, b)\<close> of \<^verbatim>\<open>posixpath\<close>, for two components: an absolute \<open>b\<close>
  replaces \<open>a\<close>; otherwise a separator is inserted unless \<open>a\<close> is empty or already
  ends with one.
\<close>

definition os_path_join :: "string \<Rightarrow> string \<Rightarrow> string" where
  "os_path_join a b =
     (if b \<noteq> [] \<and> hd b = CHR ''/'' then b
      else if a = [] \<or> last a = CHR ''/'' then a @ b
      else a @ ''/'' @ b)"

section \<open>Dictionaries in insertion order\<close>

text \<open>
  A Python \<^verbatim>\<open>dict\<close> keeps its keys in the order of their first insertion; assigning to
  a key that is present keeps the key's place. The score table is such a dictionary, and
  the order of its keys decides which of several tied directories is returned, so it is
  modelled as an association list.
\<close>

fun dict_set :: "('k \<times> 'v) list \<Rightarrow> 'k \<Rightarrow> 'v \<Rightarrow> ('k \<times> 'v) list" where
  "dict_set [] k v = [(k, v)]"
| "dict_set ((k', v') # d) k v =
     (if k' = k then (k', v) # d else (k', v') # dict_set d k v)"

text \<open>\<^verbatim>\<open>d[k] += n\<close>: reads \<open>d[k]\<close> (\<^verbatim>\<open>KeyError\<close> when absent), then assigns.\<close>

definition dict_iadd :: "('k \<times> int) list \<Rightarrow> 'k \<Rightarrow> int \<Rightarrow> exc + ('k \<times> int) list" where
  "dict_iadd d k n =
     (case map_of d k of
        None \<Rightarrow> Inl KeyError
      | Some v \<Rightarrow> Inr (dict_set d k (v + n)))"

text \<open>\<^verbatim>\<open>max(values)\<close>: \<^verbatim>\<open>ValueError\<close> on an empty sequence.\<close>

definition py_max :: "int list \<Rightarrow> exc + int" where
  "py_max vs = (case vs of [] \<Rightarrow> Inl ValueError | v # rest \<Rightarrow> Inr (fold max rest v))"

section \<open>\<^verbatim>\<open>_list_dedupe\<close>\<close>

text \<open>
  \<^verbatim>\<open>
  def _list_dedupe(values):
      uniques = []
      for val in values:
          if val not in uniques:
              uniques.append(val)
      return uniques
  \<close>
\<close>

fun list_dedupe_loop :: "'a list \<Rightarrow> 'a list \<Rightarrow> 'a list" where
  "list_dedupe_loop [] uniques = uniques"
| "list_dedupe_loop (val # values) uniques =
     list_dedupe_loop values (if val \<notin> set uniques then uniques @ [val] else uniques)"

definition list_dedupe :: "'a list \<Rightarrow> 'a list" where
  "list_dedupe values = list_dedupe_loop values []"

text \<open>The index of the first occurrence of \<open>x\<close> in \<open>xs\<close> (\<open>length xs\<close> when absent).\<close>

definition first_index :: "'a list \<Rightarrow> 'a \<Rightarrow> nat" where
  "first_index xs x = length (takeWhile (\<lambda>y. y \<noteq> x) xs)"

section \<open>The OpenSSL directory ranker\<close>

definition DEFAULT_OPENSSLDIRS :: "string list" where
  "DEFAULT_OPENSSLDIRS =
     [''/usr/share/ssl'', ''/etc/pki/tls'', ''/usr/lib/ssl'', ''/etc/ssl'',
      ''/usr/local/ssl'', ''/System/Library/OpenSSL'']"

text \<open>
  \<^verbatim>\<open>[default_openssl] + _DEFAULT_OPENSSLDIRS if default_openssl else _DEFAULT_OPENSSLDIRS\<close>:
  \<^verbatim>\<open>None\<close> and the empty string are both false.
\<close>

definition openssl_list :: "string option \<Rightarrow> string list" where
  "openssl_list default_openssl =
     (case default_openssl of
        None \<Rightarrow> DEFAULT_OPENSSLDIRS
      | Some d \<Rightarrow> if d \<noteq> [] then d # DEFAULT_OPENSSLDIRS else DEFAULT_OPENSSLDIRS)"

text \<open>
  The loop of \<^verbatim>\<open>_rank_openssl_dir\<close>, one candidate per step:
  \<^verbatim>\<open>
  for openssl_dir in openssl_list:
      if os.path.isdir(openssl_dir):
          cert_pem = os.path.join(openssl_dir, "cert.pem")
          certs_dir = os.path.join(openssl_dir, "certs")
          openssl_rank[openssl_dir] = 1 if openssl_dir == default_openssl else 0
          if os.path.isfile(cert_pem):
              openssl_rank[openssl_dir] += 4
          if os.path.isdir(certs_dir):
              openssl_rank[openssl_dir] += 2
  return openssl_rank
  \<close>
\<close>

fun rank_loop ::
  "string option \<Rightarrow> string list \<Rightarrow> (string \<times> int) list \<Rightarrow> world
     \<Rightarrow> (exc + (string \<times> int) list) \<times> world" where
  "rank_loop default_openssl [] openssl_rank w = (Inr openssl_rank, w)"
| "rank_loop default_openssl (openssl_dir # rest) openssl_rank w =
     (case os_path_isdir openssl_dir w of
        (is_dir, w1) \<Rightarrow>
          if is_dir then
            (let cert_pem = os_path_join openssl_dir ''cert.pem'';
                 certs_dir = os_path_join openssl_dir ''certs'';
                 r1 = dict_set openssl_rank openssl_dir
                        (if Some openssl_dir = default_openssl then 1 else 0)
             in case os_path_isfile cert_pem w1 of
                  (has_pem, w2) \<Rightarrow>
                    (case (if has_pem then dict_iadd r1 openssl_dir 4 else Inr r1) of
                       Inl e \<Rightarrow> (Inl e, w2)
                     | Inr r2 \<Rightarrow>
                         (case os_path_isdir certs_dir w2 of
                            (has_certs, w3) \<Rightarrow>
                              (case (if has_certs then dict_iadd r2 openssl_dir 2 else Inr r2) of
                                 Inl e \<Rightarrow> (Inl e, w3)
                               | Inr r3 \<Rightarrow> rank_loop default_openssl rest r3 w3))))
          else rank_loop default_openssl rest openssl_rank w1)"

definition rank_openssl_dir ::
  "string option \<Rightarrow> world \<Rightarrow> (exc + (string \<times> int) list) \<times> world" where
  "rank_openssl_dir default_openssl w =
     rank_loop default_openssl (openssl_list default_openssl) [] w"

text \<open>
  \<^verbatim>\<open>
  def _analyze_ranks(openssl_rank):
      if openssl_rank:
          max_value = max(openssl_rank.values())
          max_keys = [k for k, v in list(openssl_rank.items()) if v == max_value]
          if len(max_keys) > 1:
              print("There may be multiple working openssl implementations...\n")
              print(max_keys)
          if max_value >= 6:
              return (max_keys[0], 1, 1)
          if max_value >= 4:
              return (max_keys[0], 1, 0)
          if max_value >= 2:
              return (max_keys[0], 0, 1)
          else:
              return (max_keys[0], 0, 0)
      return (None, 0, 0)
  \<close>
  \<open>max_keys[0]\<close> raises \<^verbatim>\<open>IndexError\<close> on an empty list; \<open>first_key\<close> is that read.
\<close>

definition first_key :: "string list \<Rightarrow> int \<Rightarrow> int \<Rightarrow> exc + (string option \<times> int \<times> int)" where
  "first_key max_keys a b =
     (case max_keys of [] \<Rightarrow> Inl IndexError | k # ks \<Rightarrow> Inr (Some k, a, b))"

definition multiple_msg :: string where
  "multiple_msg = ''There may be multiple working openssl implementations...'' @ [CHR 0x0A]"

definition max_keys_of :: "(string \<times> int) list \<Rightarrow> int \<Rightarrow> string list" where
  "max_keys_of openssl_rank max_value =
     map fst (filter (\<lambda>(k, v). v = max_value) openssl_rank)"

definition analyze_ranks ::
  "(string \<times> int) list \<Rightarrow> world \<Rightarrow> (exc + (string option \<times> int \<times> int)) \<times> world" where
  "analyze_ranks openssl_rank w =
     (if openssl_rank \<noteq> [] then
        (case py_max (map snd openssl_rank) of
           Inl e \<Rightarrow> (Inl e, w)
         | Inr max_value \<Rightarrow>
             (let max_keys = max_keys_of openssl_rank max_value;
                  w1 = (if length max_keys > 1
                        then emit (PrintList max_keys) (emit (Print multiple_msg) w)
                        else w)
              in if max_value \<ge> 6 then (first_key max_keys 1 1, w1)
                 else if max_value \<ge> 4 then (first_key max_keys 1 0, w1)
                 else if max_value \<ge> 2 then (first_key max_keys 0 1, w1)
                 else (first_key max_keys 0 0, w1)))
      else (Inr (None, 0, 0), w))"

text \<open>
  The ranking step as \<^verbatim>\<open>_get_openssl_text\<close> runs it:
  \<^verbatim>\<open>_analyze_ranks(_rank_openssl_dir(default_openssl))\<close>.
\<close>

definition ranker ::
  "string option \<Rightarrow> world \<Rightarrow> (exc + (string option \<times> int \<times> int)) \<times> world" where
  "ranker default_openssl w =
     (case rank_openssl_dir default_openssl w of
        (Inl e, w1) \<Rightarrow> (Inl e, w1)
      | (Inr openssl_rank, w1) \<Rightarrow> analyze_ranks openssl_rank w1)"

section \<open>What the program is given from outside\<close>

text \<open>
  The standard library, the \<^verbatim>\<open>activestate\<close> and \<^verbatim>\<open>sh2\<close> modules, the Windows
  registry and the external programs are not part of the script. What they answer,
  whether they raise, and how they change the filesystem is given by an \<open>env\<close>; the
  script's own control flow around them is modelled in full. \<open>Output s\<close> carries
  \<^verbatim>\<open>str(output)\<close> of a finished subprocess.
\<close>

datatype proc_result = Raised exc | Output string

record env =
  is_win :: bool
  which :: "string \<Rightarrow> string option"
  expanduser :: "string \<Rightarrow> string"
  normpath :: "string \<Rightarrow> string"
  abspath :: "string \<Rightarrow> string"
  script_dir :: string
  version_major_minor :: "string \<times> string"
  str_strip :: "string \<Rightarrow> string"
  str_lower :: "string \<Rightarrow> string"
  getopt :: "string list \<Rightarrow> exc + ((string \<times> string) list \<times> string list)"
  chdir_fx :: "string \<Rightarrow> exc option"
  openssl_version_d :: proc_result
  os_system_fx :: "string \<Rightarrow> filesystem \<Rightarrow> (exc + int) \<times> filesystem"
  copytree_fx :: "string \<Rightarrow> string \<Rightarrow> filesystem \<Rightarrow> exc option \<times> filesystem"
  relocate_python_fx :: "string \<Rightarrow> bool \<Rightarrow> bool \<Rightarrow> filesystem \<Rightarrow> exc option \<times> filesystem"
  rootifyrpath_fx :: "string \<Rightarrow> filesystem \<Rightarrow> exc option \<times> filesystem"
  write_file_fx :: "string \<Rightarrow> string \<Rightarrow> filesystem \<Rightarrow> exc option \<times> filesystem"
  windows_install_fx :: "string \<Rightarrow> bool \<Rightarrow> bool \<Rightarrow> filesystem \<Rightarrow> exc option \<times> filesystem"

text \<open>
  \<open>is_win\<close> is \<^verbatim>\<open>sys.platform.startswith("win")\<close>; \<open>which\<close> is \<^verbatim>\<open>shutil.which\<close>;
  \<open>expanduser\<close>, \<open>normpath\<close> and \<open>abspath\<close> are the functions of \<^verbatim>\<open>os.path\<close>;
  \<open>script_dir\<close> is \<^verbatim>\<open>os.path.dirname(__file__) or os.curdir\<close>; \<open>version_major_minor\<close>
  is \<^verbatim>\<open>sys.version_info[:2]\<close> in decimal; \<open>str_strip\<close> and \<open>str_lower\<close> are the string
  methods; \<open>getopt\<close> is \<^verbatim>\<open>getopt.getopt\<close> with the option tables of \<^verbatim>\<open>main\<close>, where
  \<open>Inl e\<close> is an exception it raises; \<open>openssl_version_d\<close> is the outcome of
  \<^verbatim>\<open>subprocess.check_output(["openssl", "version", "-d"])\<close>. A field \<open>..._fx\<close> is the
  effect of the call of that name: the exception it raises, if any, and the filesystem
  it leaves.
\<close>

text \<open>\<^verbatim>\<open>s.split(c)\<close> for a one-character separator: one more piece than separators.\<close>

fun split_on :: "char \<Rightarrow> string \<Rightarrow> string list" where
  "split_on c [] = [[]]"
| "split_on c (x # xs) =
     (if x = c then [] # split_on c xs
      else (x # hd (split_on c xs)) # tl (split_on c xs))"

text \<open>
  \<^verbatim>\<open>
  def _get_default_openssldir():
      try:
          output = subprocess.check_output(["openssl", "version", "-d"])
      except (OSError, subprocess.CalledProcessError):
          return None
      return str(output).split('"')[1]
  \<close>
\<close>

definition get_default_openssldir :: "env \<Rightarrow> world \<Rightarrow> (exc + string option) \<times> world" where
  "get_default_openssldir E w =
     (let w1 = emit (Subprocess [''openssl'', ''version'', ''-d'']) w in
      case openssl_version_d E of
        Raised (OSError m) \<Rightarrow> (Inr None, w1)
      | Raised CalledProcessError \<Rightarrow> (Inr None, w1)
      | Raised e \<Rightarrow> (Inl e, w1)
      | Output s \<Rightarrow>
          (case split_on (CHR 0x22) s of
             a # b # rest \<Rightarrow> (Inr (Some b), w1)
           | _ \<Rightarrow> (Inl IndexError, w1)))"

definition not_found_msg :: string where
  "not_found_msg = ''Openssl directory not found in an expected location.''"

text \<open>
  \<^verbatim>\<open>
  def _get_openssl_text():
      openssl_dir, cert_pem, cert_dir = _analyze_ranks(
          _rank_openssl_dir(_get_default_openssldir()))
      if openssl_dir:
          open_ssl = str("export OPENSSLDIR=" + openssl_dir)
          cert_pem = (str("export SSL_CERT_FILE=" + os.path.join(openssl_dir, "cert.pem"))
                      if cert_pem else str(""))
          cert_dir = (str("export SSL_CERT_DIR=" + os.path.join(openssl_dir, "certs"))
                      if cert_dir else str(""))
          return (open_ssl, cert_pem, cert_dir)
      else:
          return ("Openssl directory not found in an expected location.", "", "")
  \<close>
  A directory name is true in Python when it is neither \<^verbatim>\<open>None\<close> nor empty; a flag when
  it is not 0.
\<close>

definition openssl_text :: "string option \<times> int \<times> int \<Rightarrow> string \<times> string \<times> string" where
  "openssl_text t =
     (case t of
        (Some openssl_dir, cert_pem, cert_dir) \<Rightarrow>
          if openssl_dir \<noteq> [] then
            (''export OPENSSLDIR='' @ openssl_dir,
             (if cert_pem \<noteq> 0
              then ''export SSL_CERT_FILE='' @ os_path_join openssl_dir ''cert.pem''
              else []),
             (if cert_dir \<noteq> 0
              then ''export SSL_CERT_DIR='' @ os_path_join openssl_dir ''certs''
              else []))
          else (not_found_msg, [], [])
      | (None, cert_pem, cert_dir) \<Rightarrow> (not_found_msg, [], []))"

definition get_openssl_text :: "env \<Rightarrow> world \<Rightarrow> (exc + (string \<times> string \<times> string)) \<times> world" where
  "get_openssl_text E w =
     (case get_default_openssldir E w of
        (Inl e, w1) \<Rightarrow> (Inl e, w1)
      | (Inr default_openssl, w1) \<Rightarrow>
          (case ranker default_openssl w1 of
             (Inl e, w2) \<Rightarrow> (Inl e, w2)
           | (Inr t, w2) \<Rightarrow> (Inr (openssl_text t), w2)))"

section \<open>Sequencing calls that may raise\<close>

text \<open>
  A statement of the script is a function from the world to a result (\<open>Inl\<close> an
  exception that is propagating, \<open>Inr\<close> a value) and the new world. \<open>and_then\<close> runs
  the next statement only when the one before returned normally.
\<close>

type_synonym 'a action = "world \<Rightarrow> (exc + 'a) \<times> world"

definition ret :: "'a \<Rightarrow> 'a action" where
  "ret x w = (Inr x, w)"

definition raise :: "exc \<Rightarrow> 'a action" where
  "raise e w = (Inl e, w)"

definition and_then :: "'a action \<Rightarrow> ('a \<Rightarrow> 'b action) \<Rightarrow> 'b action" where
  "and_then m f w = (case m w of (Inl e, w1) \<Rightarrow> (Inl e, w1) | (Inr x, w1) \<Rightarrow> f x w1)"

definition effect :: "event \<Rightarrow> unit action" where
  "effect ev w = (Inr (), emit ev w)"

definition query :: "(world \<Rightarrow> 'a \<times> world) \<Rightarrow> 'a action" where
  "query q w = (case q w of (x, w1) \<Rightarrow> (Inr x, w1))"

text \<open>A call into the outside that may change the filesystem and may raise.\<close>

definition outside :: "event \<Rightarrow> (filesystem \<Rightarrow> exc option \<times> filesystem) \<Rightarrow> unit action" where
  "outside ev fx w =
     (case fx (fs w) of
        (None, f) \<Rightarrow> (Inr (), emit ev (w\<lparr>fs := f\<rparr>))
      | (Some e, f) \<Rightarrow> (Inl e, emit ev (w\<lparr>fs := f\<rparr>)))"

text \<open>\<^verbatim>\<open>input()\<close>.\<close>

definition py_input :: "string action" where
  "py_input w =
     (case stdin w of
        [] \<Rightarrow> (Inl EOFError, emit ReadLine w)
      | Inl e # rest \<Rightarrow> (Inl e, emit ReadLine (w\<lparr>stdin := rest\<rparr>))
      | Inr line # rest \<Rightarrow> (Inr line, emit ReadLine (w\<lparr>stdin := rest\<rparr>)))"

text \<open>\<^verbatim>\<open>os.system(cmd)\<close>: the command may change the filesystem.\<close>

definition os_system :: "env \<Rightarrow> string \<Rightarrow> int action" where
  "os_system E cmd w =
     (case os_system_fx E cmd (fs w) of
        (r, f) \<Rightarrow> (r, emit (OsSystem cmd) (w\<lparr>fs := f\<rparr>)))"

definition quote :: "string \<Rightarrow> string" where
  "quote s = [CHR 0x27] @ s @ [CHR 0x27]"

section \<open>\<^verbatim>\<open>_validateInstallDir\<close>\<close>

text \<open>
  \<^verbatim>\<open>
  def _validateInstallDir(installDir):
      if os.path.exists(installDir) and not os.path.isdir(installDir):
          raise Error(
              "cannot install to '%s': exists and is not a directory" % installDir)
  \<close>
\<close>

definition validateInstallDir :: "string \<Rightarrow> unit action" where
  "validateInstallDir installDir =
     and_then (query (os_path_exists installDir)) (\<lambda>ex.
     and_then (if ex then and_then (query (os_path_isdir installDir)) (\<lambda>isd. ret (\<not> isd))
               else ret False) (\<lambda>bad.
     if bad
     then raise (Error (''cannot install to '' @ quote installDir
                          @ '': exists and is not a directory''))
     else ret ()))"

section \<open>\<^verbatim>\<open>_askYesNo\<close>\<close>

definition valid_answers :: "(string \<times> string) list" where
  "valid_answers =
     [(''yes'', ''yes''), (''y'', ''yes''), (''ye'', ''yes''), (''no'', ''no''), (''n'', ''no'')]"

definition please_msg :: string where
  "please_msg = ''Please repond with '' @ quote ''yes'' @ '' or '' @ quote ''no''
                 @ '' (or '' @ quote ''y'' @ '' or '' @ quote ''n'' @ '').'' @ [CHR 0x0A]"

text \<open>
  \<^verbatim>\<open>
  while 1:
      sys.stdout.write(question + prompt)
      choice = input().lower()
      if default is not None and choice == "":
          return default
      elif choice in list(valid.keys()):
          return valid[choice]
      else:
          sys.stdout.write("Please repond with 'yes' or 'no' (or 'y' or 'n').\n")
  \<close>
  Every turn of the loop consumes one entry of the standard input, which is finite.
\<close>

function askYesNo_loop :: "env \<Rightarrow> string \<Rightarrow> string \<Rightarrow> string option \<Rightarrow> string action" where
  "askYesNo_loop E question prompt dflt w =
     (case py_input (emit (StdoutWrite (question @ prompt)) w) of
        (Inl e, w1) \<Rightarrow> (Inl e, w1)
      | (Inr line, w1) \<Rightarrow>
          (let choice = str_lower E line in
           if dflt \<noteq> None \<and> choice = [] then (Inr (the dflt), w1)
           else (case map_of valid_answers choice of
                   Some answer \<Rightarrow> (Inr answer, w1)
                 | None \<Rightarrow>
                     askYesNo_loop E question prompt dflt
                       (emit (StdoutWrite please_msg) w1))))"
  by pat_completeness auto
termination
proof (relation "measure (\<lambda>(E, question, prompt, dflt, w). length (stdin w))")
  show "wf (measure (\<lambda>(E, question, prompt, dflt, w). length (stdin w)))"
    by simp
next
  fix E :: env and question prompt :: string and dflt :: "string option"
    and w w1 :: world and x line choice
  assume "(x, w1) = py_input (emit (StdoutWrite (question @ prompt)) w)"
    and "x = Inr line"
  then have "py_input (emit (StdoutWrite (question @ prompt)) w) = (Inr line, w1)"
    by simp
  then have "length (stdin w1) < length (stdin w)"
    by (auto simp: py_input_def emit_def split: list.splits sum.splits)
  then show "((E, question, prompt, dflt, emit (StdoutWrite please_msg) w1),
              (E, question, prompt, dflt, w))
             \<in> measure (\<lambda>(E, question, prompt, dflt, w). length (stdin w))"
    by (simp add: emit_def)
qed

text \<open>
  \<^verbatim>\<open>
  def _askYesNo(question, default="yes"):
      valid = {"yes": "yes", "y": "yes", "ye": "yes", "no": "no", "n": "no"}
      if default is None:
          prompt = " [y/n] "
      elif default == "yes":
          prompt = " [Y/n] "
      elif default == "no":
          prompt = " [y/N] "
      else:
          raise Error("invalid default answer: '%s'" % default)
      while 1: ...
  \<close>
\<close>

definition askYesNo :: "env \<Rightarrow> string \<Rightarrow> string option \<Rightarrow> string action" where
  "askYesNo E question dflt =
     (if dflt = None then askYesNo_loop E question '' [y/n] '' dflt
      else if dflt = Some ''yes'' then askYesNo_loop E question '' [Y/n] '' dflt
      else if dflt = Some ''no'' then askYesNo_loop E question '' [y/N] '' dflt
      else raise (Error (''invalid default answer: '' @ quote (the dflt))))"

section \<open>\<^verbatim>\<open>_qt_config\<close>\<close>

text \<open>\<^verbatim>\<open>qt_path.replace('\\', '\\\\')\<close>: every backslash is doubled.\<close>

definition double_backslashes :: "string \<Rightarrow> string" where
  "double_backslashes s = concat (map (\<lambda>c. if c = CHR 0x5C then [c, c] else [c]) s)"

text \<open>
  \<^verbatim>\<open>
  def _create_qt_config_file(file_path, qt_path):
      qt_conf = os.path.join(file_path, "qt.conf")
      with open(qt_conf, 'w') as conf:
          conf.write("[Paths]\nPrefix = " + qt_path.replace('\\', '\\\\'))
  \<close>
\<close>

definition create_qt_config_file :: "env \<Rightarrow> string \<Rightarrow> string \<Rightarrow> unit action" where
  "create_qt_config_file E file_path qt_path =
     (let qt_conf = os_path_join file_path ''qt.conf'';
          content = ''[Paths]'' @ [CHR 0x0A] @ ''Prefix = '' @ double_backslashes qt_path
      in outside (WriteFile qt_conf content) (write_file_fx E qt_conf content))"

text \<open>
  \<^verbatim>\<open>
  def _qt_config(install_path):
      qt_note = "\n"
      qt_path = os.path.join(install_path, "Qt")
      if os.path.exists(qt_path):
          _create_qt_config_file(os.path.join(qt_path, "bin"), qt_path)
          if sys.platform.startswith("win"):
              _create_qt_config_file(install_path, qt_path)
              qt_note = "\nQt is bundled with this build\n"
          else:
              _create_qt_config_file(os.path.join(install_path, "bin"), qt_path)
              qt_note = "\nQt is bundled with this build, to enable it:\n\n    export LD_LIBRARY_PATH=$LD_LIBRARY_PATH:" + install_path + "/Qt/lib\n"
      return qt_note
  \<close>
  Paths are joined as \<^verbatim>\<open>posixpath\<close> joins them; in this model \<open>qt_config\<close> is only
  called from the POSIX branch of \<open>install\<close>.
\<close>

definition qt_config :: "env \<Rightarrow> string \<Rightarrow> string action" where
  "qt_config E install_path =
     (let qt_path = os_path_join install_path ''Qt'' in
      and_then (query (os_path_exists qt_path)) (\<lambda>ex.
      if ex then
        and_then (create_qt_config_file E (os_path_join qt_path ''bin'') qt_path) (\<lambda>u.
        if is_win E then
          and_then (create_qt_config_file E install_path qt_path) (\<lambda>u.
          ret ([CHR 0x0A] @ ''Qt is bundled with this build'' @ [CHR 0x0A]))
        else
          and_then (create_qt_config_file E (os_path_join install_path ''bin'') qt_path) (\<lambda>u.
          ret ([CHR 0x0A] @ ''Qt is bundled with this build, to enable it:''
               @ [CHR 0x0A, CHR 0x0A]
               @ ''    export LD_LIBRARY_PATH=$LD_LIBRARY_PATH:'' @ install_path
               @ ''/Qt/lib'' @ [CHR 0x0A])))
      else ret [CHR 0x0A]))"

section \<open>\<^verbatim>\<open>install\<close>\<close>

text \<open>
  The POSIX branch of \<^verbatim>\<open>install\<close>, after the target has been validated:
  \<^verbatim>\<open>
  try:
      copytree(os.path.abspath("./INSTALLDIR"), absInstallDir, symlinks=True, ignore=None,
               copy_function=copy2, ignore_dangling_symlinks=False, dirs_exist_ok=True)
  except OSError as err:
      print(err)
  print("Relocating dir-dependent files...")
  activestate.relocate_python(install_prefix=absInstallDir,
      verbose=log.isEnabledFor(logging.DEBUG), useEnv=useEnv)
  if setRootRunpath:
      print("Setting RPATH to point to the root dir /")
      activestate.rootifyrpath(absInstallDir)
  docDir = os.path.join(absInstallDir, "doc", "python%s.%s" % sys.version_info[:2], "index.html")
  webdoc = "http://docs.activestate.com/activepython/%s.%s" % sys.version_info[:2]
  opensslDir, certPath, certDir = _get_openssl_text()
  qtNotes = _qt_config(absInstallDir)
  print(report % (absInstallDir, absInstallDir, absInstallDir, absInstallDir, qtNotes,
                  opensslDir, certDir, certPath, docDir, webdoc))
  \<close>
  The final report is logged with the values that fill its format string.
\<close>

definition try_copytree :: "env \<Rightarrow> string \<Rightarrow> string \<Rightarrow> unit action" where
  "try_copytree E src dst w =
     (case outside (CopyTree src dst) (copytree_fx E src dst) w of
        (Inl (OSError err), w1) \<Rightarrow> (Inr (), emit (Print err) w1)
      | r \<Rightarrow> r)"

definition posix_install :: "env \<Rightarrow> string \<Rightarrow> bool \<Rightarrow> bool \<Rightarrow> unit action" where
  "posix_install E absInstallDir useEnv setRootRunpath =
     and_then (try_copytree E (abspath E ''./INSTALLDIR'') absInstallDir) (\<lambda>u.
     and_then (effect (Print ''Relocating dir-dependent files...'')) (\<lambda>u.
     and_then (\<lambda>w. outside (RelocatePython absInstallDir (debug w) useEnv)
                      (relocate_python_fx E absInstallDir (debug w) useEnv) w) (\<lambda>u.
     and_then (if setRootRunpath then
                 and_then (effect (Print ''Setting RPATH to point to the root dir /'')) (\<lambda>u.
                 outside (RootifyRpath absInstallDir) (rootifyrpath_fx E absInstallDir))
               else ret ()) (\<lambda>u.
     (let version = fst (version_major_minor E) @ ''.'' @ snd (version_major_minor E);
          docDir = os_path_join (os_path_join (os_path_join absInstallDir ''doc'')
                     (''python'' @ version)) ''index.html'';
          webdoc = ''http://docs.activestate.com/activepython/'' @ version
      in and_then (get_openssl_text E) (\<lambda>(opensslDir, certPath, certDir).
         and_then (qt_config E absInstallDir) (\<lambda>qtNotes.
         effect (PrintReport [absInstallDir, absInstallDir, absInstallDir, absInstallDir,
                   qtNotes, opensslDir, certDir, certPath, docDir, webdoc]))))))))"

text \<open>
  The Windows branch (\<^verbatim>\<open>os.makedirs\<close>, \<^verbatim>\<open>sh2.cp\<close>, the registry, COM registration,
  \<^verbatim>\<open>qt.conf\<close>, path relocation and the report) runs on \<^verbatim>\<open>winreg\<close>, \<^verbatim>\<open>win32gui\<close>,
  \<^verbatim>\<open>sh2\<close> and \<^verbatim>\<open>activestate\<close>; it is one step whose outcome the environment gives.
\<close>

definition windows_install :: "env \<Rightarrow> string \<Rightarrow> bool \<Rightarrow> bool \<Rightarrow> unit action" where
  "windows_install E absInstallDir registerCOM pathAdditions =
     outside (WindowsInstall absInstallDir registerCOM pathAdditions)
       (windows_install_fx E absInstallDir registerCOM pathAdditions)"

text \<open>
  \<^verbatim>\<open>
  def install(installDir=None, useEnv=False, setRootRunpath=False, registerCOM=False,
              pathAdditions=False):
      if setRootRunpath:
          if (which("patchelf") is None):
              print("When changing RPATH, the patchelf is required but is missing. Please install.")
              sys.exit(1)
      absInstallDir = os.path.abspath(os.path.normpath(os.path.expanduser(installDir)))
      os.chdir(os.path.dirname(__file__) or os.curdir)  # change to unpack dir
      print(("Installing ActivePython to '%s'..." % absInstallDir))
      _validateInstallDir(absInstallDir)
      if sys.platform.startswith("win"):
          ...
      else:
          ...
  \<close>
\<close>

definition os_chdir :: "env \<Rightarrow> string \<Rightarrow> unit action" where
  "os_chdir E d w =
     (case chdir_fx E d of
        None \<Rightarrow> (Inr (), emit (Chdir d) w)
      | Some e \<Rightarrow> (Inl e, emit (Chdir d) w))"

definition shutil_which :: "env \<Rightarrow> string \<Rightarrow> string option action" where
  "shutil_which E cmd w = (Inr (which E cmd), emit (Which cmd) w)"

definition install :: "env \<Rightarrow> string \<Rightarrow> bool \<Rightarrow> bool \<Rightarrow> bool \<Rightarrow> bool \<Rightarrow> unit action" where
  "install E installDir useEnv setRootRunpath registerCOM pathAdditions =
     and_then (if setRootRunpath then
                 and_then (shutil_which E ''patchelf'') (\<lambda>found.
                 if found = None then
                   and_then (effect (Print
                     ''When changing RPATH, the patchelf is required but is missing. Please install.''))
                     (\<lambda>u. raise (SystemExit 1))
                 else ret ())
               else ret ()) (\<lambda>u.
     (let absInstallDir = abspath E (normpath E (expanduser E installDir)) in
      and_then (os_chdir E (script_dir E)) (\<lambda>u.
      and_then (effect (Print (''Installing ActivePython to '' @ quote absInstallDir @ ''...''))) (\<lambda>u.
      and_then (validateInstallDir absInstallDir) (\<lambda>u.
      if is_win E then windows_install E absInstallDir registerCOM pathAdditions
      else posix_install E absInstallDir useEnv setRootRunpath)))))"

section \<open>\<^verbatim>\<open>interactiveInstall\<close>\<close>

definition gDefaultInstallDir :: string where
  "gDefaultInstallDir = ''/opt/ActivePython-3.8''"

text \<open>
  \<^verbatim>\<open>_getDefaultInstallDir\<close> substitutes \<^verbatim>\<open>%SystemDrive%\<close> on Windows when the default
  contains it; \<^verbatim>\<open>gDefaultInstallDir\<close> does not, so the default is returned as it is.
\<close>

definition getDefaultInstallDir :: string where
  "getDefaultInstallDir = gDefaultInstallDir"

definition allow_setrunpath :: bool where
  "allow_setrunpath = False"

definition install_dir_prompt :: "string \<Rightarrow> string" where
  "install_dir_prompt dflt =
     ''Enter directory in which to install ActivePython. Leave blank and'' @ [CHR 0x0A]
     @ ''press '' @ quote ''Enter'' @ '' to use the default ['' @ dflt @ ''].'' @ [CHR 0x0A]
     @ ''Install directory: ''"

definition already_exists_msg :: "string \<Rightarrow> string" where
  "already_exists_msg installDir =
     [CHR 0x0A] @ quote installDir @ '' already exists. Installing over existing Python''
     @ [CHR 0x0A] @ ''installations may have unexpected results.'' @ [CHR 0x0A]
     @ ''Are you sure you would like to proceed with the installation?'' @ [CHR 0x0A]"

text \<open>
  The questions asked after the target has been accepted:
  \<^verbatim>\<open>
  useEnv = False
  setRootRunpath = False
  if sys.platform.startswith("win"):
      if registerCOM:
          choice = _askYesNo("Do you want to register the pywin32 COM objects?", default="yes")
          if choice != "yes":
              registerCOM = False
      if pathAdditions:
          choice = _askYesNo("Do you want to add directories to PATH?", default="yes")
          if choice != "yes":
              pathAdditions = False
  else:
      choice = _askYesNo(
          "Do you want to rewrite the shebang lines of scripts to use /usr/bin/env?", default="no")
      if choice == "yes":
          useEnv = True
      if allow_setrunpath:
          choice = _askYesNo("Do you want to set a RUNPATH ...", default="no")
          if choice == "yes":
              setRootRunpath = True
  \<close>
  The result is \<open>(useEnv, setRootRunpath, registerCOM, pathAdditions)\<close>.
\<close>

definition runpath_question :: string where
  "runpath_question =
     ''Do you want to set a RUNPATH to point to the root in RPATH for site-packages? ''
     @ ''(Note that patchelf needs to be installed on your system)''"

definition ask_options :: "env \<Rightarrow> bool \<Rightarrow> bool \<Rightarrow> (bool \<times> bool \<times> bool \<times> bool) action" where
  "ask_options E registerCOM pathAdditions =
     (if is_win E then
        and_then (if registerCOM then
                    and_then (askYesNo E ''Do you want to register the pywin32 COM objects?''
                                (Some ''yes'')) (\<lambda>choice.
                    ret (if choice \<noteq> ''yes'' then False else registerCOM))
                  else ret registerCOM) (\<lambda>registerCOM1.
        and_then (if pathAdditions then
                    and_then (askYesNo E ''Do you want to add directories to PATH?''
                                (Some ''yes'')) (\<lambda>choice.
                    ret (if choice \<noteq> ''yes'' then False else pathAdditions))
                  else ret pathAdditions) (\<lambda>pathAdditions1.
        ret (False, False, registerCOM1, pathAdditions1)))
      else
        and_then (askYesNo E
                    ''Do you want to rewrite the shebang lines of scripts to use /usr/bin/env?''
                    (Some ''no'')) (\<lambda>choice.
        (let useEnv = (choice = ''yes'') in
         and_then (if allow_setrunpath then
                     and_then (askYesNo E runpath_question (Some ''no'')) (\<lambda>choice2.
                     ret (choice2 = ''yes''))
                   else ret False) (\<lambda>setRootRunpath.
         ret (useEnv, setRootRunpath, registerCOM, pathAdditions)))))"

text \<open>
  \<^verbatim>\<open>
  def interactiveInstall(registerCOM=True, pathAdditions=True):
      if os.path.exists("./INSTALLDIR/bin/update_check") and 1 == os.system(
          "./INSTALLDIR/bin/update_check"):
          print("Installer superceded")
          sys.exit(0)
      default = _getDefaultInstallDir()
      sys.stdout.write(prompt % default)
      installDir = input().strip()
      if not installDir:
          installDir = default
      norm = os.path.normpath(os.path.expanduser(installDir))
      if os.path.isdir(norm):
          sys.stdout.write(already_exists % installDir)
          choice = _askYesNo("Proceed?", default="no")
          if choice == "yes":
              pass
          elif choice == "no":
              print("Aborting install.")
              return
      elif os.path.exists(norm):
          raise Error("'%s' exists and is not a directory" % installDir)
      ... (the questions) ...
      print()
      install(installDir, useEnv, setRootRunpath, registerCOM, pathAdditions)
      if os.path.exists("./INSTALLDIR/bin/komodo_download"):
          os.system("./INSTALLDIR/bin/komodo_download")
  \<close>
  \<open>check_target\<close> is the test of \<open>norm\<close>; it returns whether the installation goes on.
\<close>

definition check_target :: "env \<Rightarrow> string \<Rightarrow> string \<Rightarrow> bool action" where
  "check_target E installDir norm =
     and_then (query (os_path_isdir norm)) (\<lambda>isd.
     if isd then
       and_then (effect (StdoutWrite (already_exists_msg installDir))) (\<lambda>u.
       and_then (askYesNo E ''Proceed?'' (Some ''no'')) (\<lambda>choice.
       if choice = ''yes'' then ret True
       else if choice = ''no'' then
         and_then (effect (Print ''Aborting install.'')) (\<lambda>u. ret False)
       else ret True))
     else
       and_then (query (os_path_exists norm)) (\<lambda>ex.
       if ex then raise (Error (quote installDir @ '' exists and is not a directory''))
       else ret True))"

definition interactiveInstall :: "env \<Rightarrow> bool \<Rightarrow> bool \<Rightarrow> unit action" where
  "interactiveInstall E registerCOM pathAdditions =
     and_then (query (os_path_exists ''./INSTALLDIR/bin/update_check'')) (\<lambda>ex.
     and_then (if ex then
                 and_then (os_system E ''./INSTALLDIR/bin/update_check'') (\<lambda>status.
                 ret (1 = status))
               else ret False) (\<lambda>superseded.
     if superseded then
       and_then (effect (Print ''Installer superceded'')) (\<lambda>u. raise (SystemExit 0))
     else
       and_then (effect (StdoutWrite (install_dir_prompt getDefaultInstallDir))) (\<lambda>u.
       and_then py_input (\<lambda>line.
       (let stripped = str_strip E line;
            installDir = (if stripped = [] then getDefaultInstallDir else stripped);
            norm = normpath E (expanduser E installDir)
        in and_then (check_target E installDir norm) (\<lambda>proceed.
           if \<not> proceed then ret ()
           else
             and_then (ask_options E registerCOM pathAdditions)
               (\<lambda>(useEnv, setRootRunpath, registerCOM1, pathAdditions1).
             and_then (effect (Print [])) (\<lambda>u.
             and_then (install E installDir useEnv setRootRunpath registerCOM1 pathAdditions1) (\<lambda>u.
             and_then (query (os_path_exists ''./INSTALLDIR/bin/komodo_download'')) (\<lambda>ex2.
             if ex2 then
               and_then (os_system E ''./INSTALLDIR/bin/komodo_download'') (\<lambda>status. ret ())
             else ret ()))))))))))"

section \<open>\<^verbatim>\<open>main\<close>\<close>

text \<open>
  The option loop of \<^verbatim>\<open>main\<close>; \<open>opt_step\<close> is its body for one option. \<open>None\<close> is
  the early \<^verbatim>\<open>return\<close> of \<^verbatim>\<open>--help\<close> and \<^verbatim>\<open>--version\<close>; otherwise the settings go on
  to the next option.
  \<^verbatim>\<open>
  for opt, optarg in opts:
      if opt in ("-h", "--help"):
          sys.stdout.write(__doc__)
          return
      elif opt in ("-V", "--version"):
          ver = ".".join([str(part) for part in _version_])
          print(("install %s" % ver))
          return
      elif opt in ("-e", "--use-env-shebang"):
          useEnv = True
      elif opt in ("-v", "--verbose"):
          log.setLevel(logging.DEBUG)
      elif opt in ("-I", "--install-dir"):
          installDir = optarg
      elif opt in ("-c", "--no-com-registration"):
          registerCOM = False
      elif opt in ("-p", "--no-path-additions"):
          pathAdditions = False
  \<close>
\<close>

record settings =
  s_installDir :: "string option"
  s_registerCOM :: bool
  s_pathAdditions :: bool
  s_useEnv :: bool

definition opt_step :: "string \<Rightarrow> string \<Rightarrow> settings \<Rightarrow> world \<Rightarrow> settings option \<times> world" where
  "opt_step opt optarg st w =
     (if opt \<in> {''-h'', ''--help''} then (None, emit StdoutWriteDoc w)
      else if opt \<in> {''-V'', ''--version''} then (None, emit (Print ''install 0.1.0'') w)
      else if opt \<in> {''-e'', ''--use-env-shebang''} then (Some (st\<lparr>s_useEnv := True\<rparr>), w)
      else if opt \<in> {''-v'', ''--verbose''} then (Some st, w\<lparr>debug := True\<rparr>)
      else if opt \<in> {''-I'', ''--install-dir''} then (Some (st\<lparr>s_installDir := Some optarg\<rparr>), w)
      else if opt \<in> {''-c'', ''--no-com-registration''}
        then (Some (st\<lparr>s_registerCOM := False\<rparr>), w)
      else if opt \<in> {''-p'', ''--no-path-additions''}
        then (Some (st\<lparr>s_pathAdditions := False\<rparr>), w)
      else (Some st, w))"

fun opts_loop :: "(string \<times> string) list \<Rightarrow> settings \<Rightarrow> world \<Rightarrow> settings option \<times> world" where
  "opts_loop [] st w = (Some st, w)"
| "opts_loop ((opt, optarg) # opts) st w =
     (case opt_step opt optarg st w of
        (None, w1) \<Rightarrow> (None, w1)
      | (Some st1, w1) \<Rightarrow> opts_loop opts st1 w1)"

definition initial_settings :: settings where
  "initial_settings =
     \<lparr>s_installDir = None, s_registerCOM = True, s_pathAdditions = True, s_useEnv = False\<rparr>"

text \<open>The body of the \<^verbatim>\<open>try\<close> block of \<^verbatim>\<open>main\<close>.\<close>

definition run_install :: "env \<Rightarrow> settings \<Rightarrow> unit action" where
  "run_install E st =
     (case s_installDir st of
        None \<Rightarrow> interactiveInstall E (s_registerCOM st) (s_pathAdditions st)
      | Some d \<Rightarrow> install E d (s_useEnv st) False (s_registerCOM st) (s_pathAdditions st))"

text \<open>
  The handler of \<^verbatim>\<open>except (EnvironmentError, Error) as ex\<close>:
  \<^verbatim>\<open>
  log.error(str(ex))
  if log.isEnabledFor(logging.DEBUG):
      print()
      import traceback
      traceback.print_exception(*sys.exc_info())
  return 1
  \<close>
\<close>

definition report_error :: "string \<Rightarrow> world \<Rightarrow> world" where
  "report_error msg w =
     (let w1 = emit (LogError msg) w in
      if debug w1 then emit PrintTraceback (emit (Print []) w1) else w1)"

text \<open>
  \<^verbatim>\<open>
  def main(argv):
      logging.basicConfig()
      try:
          opts, args = getopt.getopt(argv[1:], "VvheI:n", [...])
      except getopt.GetoptError as ex:
          log.error(str(ex))
          log.error("Try `./install.sh --help'.")
          return 1
      installDir = None; registerCOM = True; pathAdditions = True; useEnv = False
      for opt, optarg in opts: ...
      try:
          if installDir is None:
              interactiveInstall(registerCOM, pathAdditions)
          else:
              install(installDir, useEnv, False, registerCOM, pathAdditions)
      except (EnvironmentError, Error) as ex:
          ...
          return 1
      except KeyboardInterrupt:
          log.debug("user abort")
          pass
  \<close>
  The value is what \<^verbatim>\<open>main\<close> returns: \<open>None\<close> where the function ends without a
  \<^verbatim>\<open>return\<close> value. Only a \<^verbatim>\<open>GetoptError\<close> of \<^verbatim>\<open>getopt.getopt\<close> is caught by the
  first \<^verbatim>\<open>try\<close>, and only the call of \<^verbatim>\<open>interactiveInstall\<close> or \<^verbatim>\<open>install\<close> stands in
  the second: any other exception of \<^verbatim>\<open>getopt.getopt\<close> leaves \<^verbatim>\<open>main\<close>.
\<close>

definition main :: "env \<Rightarrow> string list \<Rightarrow> int option action" where
  "main E argv w =
     (case getopt E (tl argv) of
        Inl (GetoptError msg) \<Rightarrow>
          (Inr (Some 1),
           emit (LogError (''Try `./install.sh --help'' @ [CHR 0x27] @ ''.'')) (emit (LogError msg) w))
      | Inl e \<Rightarrow> (Inl e, w)
      | Inr (opts, args) \<Rightarrow>
          (case opts_loop opts initial_settings w of
             (None, w1) \<Rightarrow> (Inr None, w1)
           | (Some st, w1) \<Rightarrow>
               (case run_install E st w1 of
                  (Inr u, w2) \<Rightarrow> (Inr None, w2)
                | (Inl (OSError msg), w2) \<Rightarrow> (Inr (Some 1), report_error msg w2)
                | (Inl (Error msg), w2) \<Rightarrow> (Inr (Some 1), report_error msg w2)
                | (Inl KeyboardInterrupt, w2) \<Rightarrow>
                    (Inr None, if debug w2 then emit (LogDebug ''user abort'') w2 else w2)
                | (Inl e, w2) \<Rightarrow> (Inl e, w2))))"

text \<open>
  \<^verbatim>\<open>sys.exit(main(sys.argv))\<close>: the status of the process. \<^verbatim>\<open>sys.exit(None)\<close> is
  status 0, \<^verbatim>\<open>sys.exit(n)\<close> is status \<open>n\<close>, a \<^verbatim>\<open>SystemExit(n)\<close> raised inside ends
  the process with \<open>n\<close>. A \<^verbatim>\<open>KeyboardInterrupt\<close> that leaves \<^verbatim>\<open>main\<close> makes the
  interpreter end itself with \<^verbatim>\<open>SIGINT\<close>, which a shell reports as status 130; any other
  exception that leaves \<^verbatim>\<open>main\<close> ends the interpreter with a traceback and status 1.
\<close>

definition exit_status :: "exc + int option \<Rightarrow> int" where
  "exit_status r =
     (case r of
        Inr None \<Rightarrow> 0
      | Inr (Some n) \<Rightarrow> n
      | Inl (SystemExit n) \<Rightarrow> n
      | Inl KeyboardInterrupt \<Rightarrow> 130
      | Inl e \<Rightarrow> 1)"

section \<open>Notions used to state the ranker's properties\<close>

text \<open>The score as the specification words it: three weighted signals.\<close>

definition spec_score :: "filesystem \<Rightarrow> string option \<Rightarrow> string \<Rightarrow> int" where
  "spec_score f default_openssl d =
     (if Some d = default_openssl then 1 else 0)
     + (if f (os_path_join d ''cert.pem'') = Some RegularFile then 4 else 0)
     + (if f (os_path_join d ''certs'') = Some Directory then 2 else 0)"

definition scored :: "filesystem \<Rightarrow> string option \<Rightarrow> string \<Rightarrow> string \<times> int" where
  "scored f default_openssl d = (d, spec_score f default_openssl d)"

text \<open>The filesystem questions one pass over a candidate list asks, in order.\<close>

fun rank_queries :: "filesystem \<Rightarrow> string list \<Rightarrow> event list" where
  "rank_queries f [] = []"
| "rank_queries f (d # ds) =
     (if f d = Some Directory
      then [IsDir d, IsFile (os_path_join d ''cert.pem''), IsDir (os_path_join d ''certs'')]
      else [IsDir d]) @ rank_queries f ds"

text \<open>The candidates that are directories, each once, in candidate-list order.\<close>

definition existing_dirs :: "filesystem \<Rightarrow> string list \<Rightarrow> string list" where
  "existing_dirs f ds = list_dedupe (filter (\<lambda>d. f d = Some Directory) ds)"

text \<open>The best score among the existing candidates, and the candidates that reach it.\<close>

definition best_score :: "filesystem \<Rightarrow> string option \<Rightarrow> int" where
  "best_score f default_openssl =
     Max (spec_score f default_openssl ` set (existing_dirs f (openssl_list default_openssl)))"

definition tied_dirs :: "filesystem \<Rightarrow> string option \<Rightarrow> string list" where
  "tied_dirs f default_openssl =
     filter (\<lambda>d. spec_score f default_openssl d = best_score f default_openssl)
       (existing_dirs f (openssl_list default_openssl))"

text \<open>The threshold table of \<^verbatim>\<open>_analyze_ranks\<close>, as one function of the best score.\<close>

definition flags_of :: "int \<Rightarrow> int \<times> int" where
  "flags_of m = (if 6 \<le> m then (1, 1) else if 4 \<le> m then (1, 0) else if 2 \<le> m then (0, 1) else (0, 0))"

text \<open>
  The candidate list as the specification words it: the system default first when it
  was found, then the fixed list of known locations in its declared order.
\<close>

definition spec_candidates :: "string option \<Rightarrow> string list" where
  "spec_candidates found_default =
     (case found_default of None \<Rightarrow> [] | Some d \<Rightarrow> if d = [] then [] else [d])
     @ [''/usr/share/ssl'', ''/etc/pki/tls'', ''/usr/lib/ssl'', ''/etc/ssl'',
        ''/usr/local/ssl'', ''/System/Library/OpenSSL'']"

text \<open>
  The maximum score over the candidates that are directories, and the candidates tied
  at it, again in the specification's words.
\<close>

definition spec_best :: "filesystem \<Rightarrow> string option \<Rightarrow> int" where
  "spec_best f found_default =
     Max (spec_score f found_default
            ` {d \<in> set (spec_candidates found_default). f d = Some Directory})"

definition spec_tied :: "filesystem \<Rightarrow> string option \<Rightarrow> string set" where
  "spec_tied f found_default =
     {d \<in> set (spec_candidates found_default).
        f d = Some Directory \<and> spec_score f found_default d = spec_best f found_default}"

section \<open>Example worlds\<close>

text \<open>
  A synthetic filesystem: \<^verbatim>\<open>/fakessl\<close> with both \<^verbatim>\<open>cert.pem\<close> and \<^verbatim>\<open>certs/\<close>, and
  \<^verbatim>\<open>/etc/ssl\<close> with \<^verbatim>\<open>certs/\<close> only.
\<close>

definition fake_fs :: filesystem where
  "fake_fs = map_of
     [(''/fakessl'', Directory), (''/fakessl/cert.pem'', RegularFile),
      (''/fakessl/certs'', Directory), (''/etc/ssl'', Directory),
      (''/etc/ssl/certs'', Directory)]"

definition world_of :: "filesystem \<Rightarrow> world" where
  "world_of f = \<lparr>fs = f, stdin = [], debug = False, log = []\<rparr>"

text \<open>
  Two directories tied at score 2 (\<^verbatim>\<open>certs/\<close> only) and a third, empty one.
\<close>

definition tie_fs :: filesystem where
  "tie_fs = map_of
     [(''/usr/lib/ssl'', Directory), (''/usr/lib/ssl/certs'', Directory),
      (''/etc/ssl'', Directory), (''/etc/ssl/certs'', Directory),
      (''/usr/local/ssl'', Directory)]"

text \<open>One directory that holds \<^verbatim>\<open>cert.pem\<close> and no \<^verbatim>\<open>certs/\<close>.\<close>

definition pem_only_fs :: filesystem where
  "pem_only_fs = map_of [(''/etc/ssl'', Directory), (''/etc/ssl/cert.pem'', RegularFile)]"

section \<open>Example environments\<close>

text \<open>
  An environment in which nothing outside fails: no \<^verbatim>\<open>openssl\<close> tool, a POSIX platform,
  path functions that leave their argument alone, and an option parser that knows
  \<^verbatim>\<open>-I <dir>\<close>. \<open>interrupted_env\<close> is the same with the user's interrupt arriving during
  the copy; \<open>failing_copy_env\<close> is the same with the copy failing on a full disk.
\<close>

definition quiet_env :: env where
  "quiet_env =
     \<lparr>is_win = False,
      which = (\<lambda>cmd. None),
      expanduser = (\<lambda>p. p),
      normpath = (\<lambda>p. p),
      abspath = (\<lambda>p. p),
      script_dir = ''/tmp/unpack'',
      version_major_minor = (''3'', ''8''),
      str_strip = (\<lambda>s. s),
      str_lower = (\<lambda>s. s),
      getopt = (\<lambda>args. case args of
                  [opt, d] \<Rightarrow> if opt = ''-I'' then Inr ([(''-I'', d)], [])
                              else Inl (GetoptError (''option '' @ opt @ '' not recognized''))
                | _ \<Rightarrow> Inr ([], args)),
      chdir_fx = (\<lambda>d. None),
      openssl_version_d = Raised (OSError ''No such file or directory''),
      os_system_fx = (\<lambda>cmd f. (Inr 0, f)),
      copytree_fx = (\<lambda>src dst f. (None, f(dst \<mapsto> Directory))),
      relocate_python_fx = (\<lambda>prefix verbose use_env f. (None, f)),
      rootifyrpath_fx = (\<lambda>prefix f. (None, f)),
      write_file_fx = (\<lambda>p content f. (None, f(p \<mapsto> RegularFile))),
      windows_install_fx = (\<lambda>dst reg paths f. (None, f(dst \<mapsto> Directory)))\<rparr>"

definition interrupted_env :: env where
  "interrupted_env =
     quiet_env\<lparr>copytree_fx := (\<lambda>src dst f. (Some KeyboardInterrupt, f(dst \<mapsto> Directory)))\<rparr>"

definition failing_copy_env :: env where
  "failing_copy_env =
     quiet_env\<lparr>copytree_fx :=
       (\<lambda>src dst f. (Some (OSError ''No space left on device''), f(dst \<mapsto> Directory)))\<rparr>"

text \<open>The same environment with the user's interrupt arriving while the options are parsed.\<close>

definition interrupted_parse_env :: env where
  "interrupted_parse_env = quiet_env\<lparr>getopt := (\<lambda>args. Inl KeyboardInterrupt)\<rparr>"

text \<open>A filesystem in which \<^verbatim>\<open>/opt/x\<close> is a regular file and nothing else exists.\<close>

definition file_fs :: filesystem where
  "file_fs = map_of [(''/opt/x'', RegularFile)]"

text \<open>The command line \<^verbatim>\<open>install.sh -I d\<close>, and the settings \<^verbatim>\<open>main\<close> derives from it.\<close>

definition install_argv :: "string \<Rightarrow> string list" where
  "install_argv d = [''install.sh'', ''-I'', d]"

definition chosen :: "string \<Rightarrow> settings" where
  "chosen d = initial_settings\<lparr>s_installDir := Some d\<rparr>"

section \<open>Notions used to state the properties of \<^verbatim>\<open>install\<close> and \<^verbatim>\<open>main\<close>\<close>

text \<open>The path \<^verbatim>\<open>install\<close> validates: \<^verbatim>\<open>absInstallDir\<close>.\<close>

definition abs_target :: "env \<Rightarrow> string \<Rightarrow> string" where
  "abs_target E d = abspath E (normpath E (expanduser E d))"

text \<open>The exception \<^verbatim>\<open>_validateInstallDir\<close> raises.\<close>

definition not_a_directory :: "string \<Rightarrow> exc" where
  "not_a_directory p =
     Error (''cannot install to '' @ quote p @ '': exists and is not a directory'')"

text \<open>The second line \<^verbatim>\<open>main\<close> logs after a \<^verbatim>\<open>GetoptError\<close>.\<close>

definition try_help_msg :: string where
  "try_help_msg = ''Try `./install.sh --help'' @ [CHR 0x27] @ ''.''"

section \<open>Claim C9: \<^verbatim>\<open>_list_dedupe\<close>\<close>

lemma list_dedupe_loop_filter:
  "list_dedupe_loop xs acc = acc @ filter (\<lambda>x. x \<notin> set acc) (list_dedupe_loop xs [])"
proof (induction xs arbitrary: acc)
  case Nil
  show ?case by simp
next
  case (Cons x xs)
  have one: "list_dedupe_loop xs [x] = x # filter (\<lambda>y. y \<noteq> x) (list_dedupe_loop xs [])"
    using Cons.IH [of "[x]"] by simp
  show ?case
  proof (cases "x \<in> set acc")
    case True
    have "filter (\<lambda>y. y \<notin> set acc) (filter (\<lambda>y. y \<noteq> x) (list_dedupe_loop xs []))
          = filter (\<lambda>y. y \<notin> set acc) (list_dedupe_loop xs [])"
      using True by (auto intro: filter_cong)
    with True show ?thesis
      using Cons.IH [of acc] by (simp add: one)
  next
    case False
    have "filter (\<lambda>y. y \<notin> set acc) (filter (\<lambda>y. y \<noteq> x) (list_dedupe_loop xs []))
          = filter (\<lambda>y. y \<notin> set (acc @ [x])) (list_dedupe_loop xs [])"
      by (auto intro: filter_cong)
    with False show ?thesis
      using Cons.IH [of "acc @ [x]"] by (simp add: one)
  qed
qed

lemma list_dedupe_Nil: "list_dedupe [] = []"
  by (simp add: list_dedupe_def)

lemma list_dedupe_Cons:
  "list_dedupe (x # xs) = x # filter (\<lambda>y. y \<noteq> x) (list_dedupe xs)"
  using list_dedupe_loop_filter [of xs "[x]"] by (simp add: list_dedupe_def)

lemma set_list_dedupe: "set (list_dedupe xs) = set xs"
  by (induction xs) (auto simp: list_dedupe_Nil list_dedupe_Cons)

lemma distinct_list_dedupe: "distinct (list_dedupe xs)"
  by (induction xs) (auto simp: list_dedupe_Nil list_dedupe_Cons set_list_dedupe)

lemma list_dedupe_distinct_id: "distinct xs \<Longrightarrow> list_dedupe xs = xs"
proof (induction xs)
  case Nil
  show ?case by (simp add: list_dedupe_Nil)
next
  case (Cons x xs)
  then have "filter (\<lambda>y. y \<noteq> x) xs = xs"
    by (auto intro: filter_True)
  with Cons show ?case by (simp add: list_dedupe_Cons)
qed

lemma first_index_Cons:
  "first_index (x # xs) y = (if y = x then 0 else Suc (first_index xs y))"
  by (simp add: first_index_def)

lemma first_occurrence_order:
  "sorted_wrt (<) (map (first_index xs) (list_dedupe xs))"
proof (induction xs)
  case Nil
  show ?case by (simp add: list_dedupe_Nil)
next
  case (Cons x xs)
  let ?ys = "filter (\<lambda>y. y \<noteq> x) (list_dedupe xs)"
  have eq: "map (first_index (x # xs)) ?ys = map Suc (map (first_index xs) ?ys)"
    by (simp add: first_index_Cons)
  have "sorted_wrt (<) (map (first_index xs) ?ys)"
    using Cons.IH by (simp add: sorted_wrt_map sorted_wrt_filter)
  then have "sorted_wrt (<) (map Suc (map (first_index xs) ?ys))"
    by (simp add: sorted_wrt_map)
  then show ?case
    by (simp add: list_dedupe_Cons eq) (auto simp: first_index_Cons)
qed

lemma find_filter_neq:
  "\<not> P x \<Longrightarrow> List.find P (filter (\<lambda>y. y \<noteq> x) ys) = List.find P ys"
  by (induction ys) auto

lemma find_list_dedupe: "List.find P (list_dedupe xs) = List.find P xs"
  by (induction xs) (auto simp: list_dedupe_Nil list_dedupe_Cons find_filter_neq)

lemma list_dedupe_filter: "list_dedupe (filter P xs) = filter P (list_dedupe xs)"
proof (induction xs)
  case Nil
  show ?case by (simp add: list_dedupe_Nil)
next
  case (Cons x xs)
  have "filter (\<lambda>y. y \<noteq> x) (filter P (list_dedupe xs))
          = filter P (filter (\<lambda>y. y \<noteq> x) (list_dedupe xs))"
    by (auto intro: filter_cong)
  moreover have "\<not> P x \<Longrightarrow> filter P (filter (\<lambda>y. y \<noteq> x) (list_dedupe xs)) = filter P (list_dedupe xs)"
    by (auto intro: filter_cong)
  ultimately show ?case
    using Cons.IH by (simp add: list_dedupe_Cons)
qed

lemma list_dedupe_idem: "list_dedupe (list_dedupe xs) = list_dedupe xs"
  by (simp add: list_dedupe_distinct_id distinct_list_dedupe)

lemma list_dedupe_removeAll:
  "list_dedupe (x # removeAll x xs) = list_dedupe (x # xs)"
proof -
  have "filter (\<lambda>y. y \<noteq> x) (list_dedupe (filter (\<lambda>y. y \<noteq> x) xs))
          = filter (\<lambda>y. y \<noteq> x) (list_dedupe xs)"
    by (simp add: list_dedupe_filter)
  moreover have "removeAll x xs = filter (\<lambda>y. y \<noteq> x) xs"
    by (induction xs) auto
  ultimately show ?thesis by (simp add: list_dedupe_Cons)
qed

text \<open>
  Claim C9. For every input list, \<^verbatim>\<open>_list_dedupe\<close> returns a list without duplicates
  that has exactly the elements of the input, in the order of their first occurrences
  (the first-occurrence indices of the result's elements increase strictly); applying it
  twice is the same as applying it once.
\<close>

theorem list_dedupe_correct:
  "distinct (list_dedupe xs)
   \<and> set (list_dedupe xs) = set xs
   \<and> sorted_wrt (<) (map (first_index xs) (list_dedupe xs))
   \<and> list_dedupe (list_dedupe xs) = list_dedupe xs"
  by (simp add: distinct_list_dedupe set_list_dedupe first_occurrence_order list_dedupe_idem)

lemma list_dedupe_example: "list_dedupe [3, 1, 3, 2, 1 :: int] = [3, 1, 2]"
  by (simp add: list_dedupe_def)

section \<open>The score table and the loop of \<^verbatim>\<open>_rank_openssl_dir\<close>\<close>

lemma map_of_dict_set: "map_of (dict_set r k v) = (map_of r)(k \<mapsto> v)"
  by (induction r) (auto simp: fun_eq_iff)

lemma dict_set_twice: "dict_set (dict_set r k a) k b = dict_set r k b"
  by (induction r) auto

lemma dict_iadd_after_set: "dict_iadd (dict_set r k a) k n = Inr (dict_set r k (a + n))"
  by (simp add: dict_iadd_def map_of_dict_set dict_set_twice)

lemma dict_set_map:
  "dict_set (map (\<lambda>k. (k, g k)) ks) d (g d)
     = map (\<lambda>k. (k, g k)) (if d \<in> set ks then ks else ks @ [d])"
  by (induction ks) auto

lemma rank_queries_are_queries: "e \<in> set (rank_queries f ds) \<Longrightarrow> is_query e"
  by (induction ds) (auto split: if_splits)

lemma emit_log: "emit e (w\<lparr>log := l\<rparr>) = w\<lparr>log := l @ [e]\<rparr>"
  by (simp add: emit_def)

lemma rank_loop_dir:
  assumes "fs w d = Some Directory"
  shows "rank_loop dflt (d # ds) r w =
           rank_loop dflt ds (dict_set r d (spec_score (fs w) dflt d))
             (w\<lparr>log := log w @ [IsDir d, IsFile (os_path_join d ''cert.pem''),
                                   IsDir (os_path_join d ''certs'')]\<rparr>)"
  using assms
  by (simp add: os_path_isdir_def os_path_isfile_def Let_def emit_def
        dict_iadd_after_set spec_score_def del: dict_set.simps)

lemma rank_loop_nodir:
  assumes "fs w d \<noteq> Some Directory"
  shows "rank_loop dflt (d # ds) r w = rank_loop dflt ds r (w\<lparr>log := log w @ [IsDir d]\<rparr>)"
  using assms by (simp add: os_path_isdir_def emit_def)

declare rank_loop.simps(2) [simp del]

lemma rank_loop_eq:
  "rank_loop dflt ds (map (scored (fs w) dflt) ks) w =
     (Inr (map (scored (fs w) dflt)
             (list_dedupe_loop (filter (\<lambda>d. fs w d = Some Directory) ds) ks)),
      w\<lparr>log := log w @ rank_queries (fs w) ds\<rparr>)"
proof (induction ds arbitrary: ks w)
  case Nil
  show ?case by simp
next
  case (Cons d ds)
  show ?case
  proof (cases "fs w d = Some Directory")
    case False
    show ?thesis
      unfolding rank_loop_nodir [OF False]
      using Cons.IH [of "w\<lparr>log := log w @ [IsDir d]\<rparr>" ks] False
      by simp
  next
    case True
    let ?ks' = "if d \<in> set ks then ks else ks @ [d]"
    let ?w3 = "w\<lparr>log := log w @ [IsDir d, IsFile (os_path_join d ''cert.pem''),
                                   IsDir (os_path_join d ''certs'')]\<rparr>"
    have r3: "dict_set (map (scored (fs w) dflt) ks) d (spec_score (fs w) dflt d)
                = map (scored (fs w) dflt) ?ks'"
      using dict_set_map [of "spec_score (fs w) dflt" ks d]
      by (simp add: scored_def [abs_def])
    have step: "rank_loop dflt (d # ds) (map (scored (fs w) dflt) ks) w
                  = rank_loop dflt ds (map (scored (fs w) dflt) ?ks') ?w3"
      unfolding rank_loop_dir [OF True] r3 ..
    show ?thesis
      unfolding step using Cons.IH [of ?w3 ?ks'] True
      by simp
  qed
qed

lemma rank_openssl_dir_eq:
  "rank_openssl_dir dflt w =
     (Inr (map (scored (fs w) dflt) (existing_dirs (fs w) (openssl_list dflt))),
      w\<lparr>log := log w @ rank_queries (fs w) (openssl_list dflt)\<rparr>)"
  using rank_loop_eq [of dflt "openssl_list dflt" w "[]"]
  by (simp add: rank_openssl_dir_def existing_dirs_def list_dedupe_def)


lemma set_existing_dirs:
  "set (existing_dirs f ds) = {d \<in> set ds. f d = Some Directory}"
  by (simp add: existing_dirs_def set_list_dedupe)

lemma distinct_existing_dirs: "distinct (existing_dirs f ds)"
  by (simp add: existing_dirs_def distinct_list_dedupe)

lemma spec_score_bounds: "0 \<le> spec_score f dflt d \<and> spec_score f dflt d \<le> 7"
  by (simp add: spec_score_def)

lemma map_of_scored:
  "map_of (map (scored f dflt) ks) d = (if d \<in> set ks then Some (spec_score f dflt d) else None)"
  by (induction ks) (auto simp: scored_def)

lemma py_max_Max: "vs \<noteq> [] \<Longrightarrow> py_max vs = Inr (Max (set vs))"
  by (cases vs) (simp_all add: py_max_def Max.set_eq_fold [symmetric])

lemma max_keys_of_scored:
  "max_keys_of (map (scored f dflt) ks) m = filter (\<lambda>d. spec_score f dflt d = m) ks"
  by (induction ks) (auto simp: max_keys_of_def scored_def)

lemma max_keys_of_nonempty:
  assumes "r \<noteq> []"
  shows "max_keys_of r (Max (snd ` set r)) \<noteq> []"
proof -
  have "Max (snd ` set r) \<in> snd ` set r"
    using assms by (intro Max_in) auto
  then obtain k where "(k, Max (snd ` set r)) \<in> set r"
    by auto
  then have "k \<in> set (max_keys_of r (Max (snd ` set r)))"
    by (force simp: max_keys_of_def)
  then show ?thesis by auto
qed

lemma analyze_ranks_nonempty:
  assumes "r \<noteq> []"
  shows "analyze_ranks r w =
           (Inr (Some (hd (max_keys_of r (Max (snd ` set r)))), flags_of (Max (snd ` set r))),
            if 1 < length (max_keys_of r (Max (snd ` set r)))
            then w\<lparr>log := log w @ [Print multiple_msg, PrintList (max_keys_of r (Max (snd ` set r)))]\<rparr>
            else w)"
proof -
  obtain k ks where ks: "max_keys_of r (Max (snd ` set r)) = k # ks"
    using max_keys_of_nonempty [OF assms] by (cases "max_keys_of r (Max (snd ` set r))") auto
  have pm: "py_max (map snd r) = Inr (Max (snd ` set r))"
    using assms by (simp add: py_max_Max)
  show ?thesis
    using assms
    by (simp add: analyze_ranks_def pm ks first_key_def flags_of_def Let_def emit_def)
qed

lemma analyze_ranks_empty: "analyze_ranks [] w = (Inr (None, 0, 0), w)"
  by (simp add: analyze_ranks_def)

section \<open>Claim C1: the scores\<close>

lemmas path_simps = os_path_join_def openssl_list_def DEFAULT_OPENSSLDIRS_def

lemma fst_rank_openssl_dir:
  "fst (rank_openssl_dir dflt w) = Inr (map (scored (fs w) dflt) (existing_dirs (fs w) (openssl_list dflt)))"
  by (simp add: rank_openssl_dir_eq)

text \<open>
  Claim C1. Every candidate that is a directory on disk gets the score
  (1 if it is the system default) + (4 if \<^verbatim>\<open>cert.pem\<close> is a file inside it) +
  (2 if \<^verbatim>\<open>certs\<close> is a directory inside it); every score lies in \<open>[0, 7]\<close>; a
  candidate that is not a directory on disk, and any path that is no candidate, has no
  entry. The table has one entry per path and \<^verbatim>\<open>_rank_openssl_dir\<close> never raises.
\<close>

theorem rank_openssl_dir_scores:
  "\<exists>r. fst (rank_openssl_dir dflt w) = Inr r
     \<and> distinct (map fst r)
     \<and> (\<forall>d. map_of r d =
            (if d \<in> set (openssl_list dflt) \<and> fs w d = Some Directory
             then Some (spec_score (fs w) dflt d) else None))
     \<and> (\<forall>(d, v) \<in> set r. 0 \<le> v \<and> v \<le> 7)"
proof -
  let ?ks = "existing_dirs (fs w) (openssl_list dflt)"
  let ?r = "map (scored (fs w) dflt) ?ks"
  have keys: "map fst ?r = ?ks"
    by (simp add: scored_def [abs_def] comp_def)
  have "distinct (map fst ?r)"
    unfolding keys by (rule distinct_existing_dirs)
  moreover have "\<forall>d. map_of ?r d =
            (if d \<in> set (openssl_list dflt) \<and> fs w d = Some Directory
             then Some (spec_score (fs w) dflt d) else None)"
    by (simp add: map_of_scored set_existing_dirs)
  moreover have "\<forall>(d, v) \<in> set ?r. 0 \<le> v \<and> v \<le> 7"
    using spec_score_bounds by (auto simp: scored_def)
  ultimately show ?thesis
    using fst_rank_openssl_dir [of dflt w] by blast
qed

theorem rank_openssl_dir_scores_witness:
  "\<exists>r. fst (rank_openssl_dir (Some ''/fakessl'') (world_of fake_fs)) = Inr r
     \<and> map_of r ''/fakessl'' = Some 7
     \<and> map_of r ''/etc/ssl'' = Some 2
     \<and> map_of r ''/usr/lib/ssl'' = None"
proof -
  obtain r where r: "fst (rank_openssl_dir (Some ''/fakessl'') (world_of fake_fs)) = Inr r"
    and m: "\<forall>d. map_of r d =
            (if d \<in> set (openssl_list (Some ''/fakessl'')) \<and> fs (world_of fake_fs) d = Some Directory
             then Some (spec_score (fs (world_of fake_fs)) (Some ''/fakessl'') d) else None)"
    using rank_openssl_dir_scores [of "Some ''/fakessl''" "world_of fake_fs"] by blast
  have "map_of r ''/fakessl'' = Some 7"
    by (simp add: m path_simps spec_score_def world_of_def fake_fs_def)
  moreover have "map_of r ''/etc/ssl'' = Some 2"
    by (simp add: m path_simps spec_score_def world_of_def fake_fs_def)
  moreover have "map_of r ''/usr/lib/ssl'' = None"
    by (simp add: m path_simps spec_score_def world_of_def fake_fs_def)
  ultimately show ?thesis using r by blast
qed

section \<open>The ranker in closed form\<close>

lemma ranker_eq:
  "ranker dflt w =
     analyze_ranks (map (scored (fs w) dflt) (existing_dirs (fs w) (openssl_list dflt)))
       (w\<lparr>log := log w @ rank_queries (fs w) (openssl_list dflt)\<rparr>)"
  by (simp add: ranker_def rank_openssl_dir_eq)

lemma snd_scored_image:
  "snd ` set (map (scored f dflt) ks) = spec_score f dflt ` set ks"
  by (auto simp: scored_def image_iff)

lemma ranker_found:
  assumes "existing_dirs (fs w) (openssl_list dflt) \<noteq> []"
  shows "ranker dflt w =
           (Inr (Some (hd (tied_dirs (fs w) dflt)), flags_of (best_score (fs w) dflt)),
            w\<lparr>log := log w @ rank_queries (fs w) (openssl_list dflt)
                    @ (if 1 < length (tied_dirs (fs w) dflt)
                       then [Print multiple_msg, PrintList (tied_dirs (fs w) dflt)] else [])\<rparr>)"
proof -
  let ?ks = "existing_dirs (fs w) (openssl_list dflt)"
  let ?r = "map (scored (fs w) dflt) ?ks"
  have ne: "?r \<noteq> []" using assms by simp
  have m: "Max (snd ` set ?r) = best_score (fs w) dflt"
    unfolding snd_scored_image best_score_def ..
  have t: "max_keys_of ?r (best_score (fs w) dflt) = tied_dirs (fs w) dflt"
    by (simp add: max_keys_of_scored tied_dirs_def)
  show ?thesis
    unfolding ranker_eq analyze_ranks_nonempty [OF ne] m t by simp
qed

lemma ranker_not_found:
  assumes "existing_dirs (fs w) (openssl_list dflt) = []"
  shows "ranker dflt w =
           (Inr (None, 0, 0), w\<lparr>log := log w @ rank_queries (fs w) (openssl_list dflt)\<rparr>)"
  unfolding ranker_eq assms by (simp add: analyze_ranks_empty)

lemma best_score_attained:
  assumes "existing_dirs f (openssl_list dflt) \<noteq> []"
  shows "best_score f dflt \<in> spec_score f dflt ` set (existing_dirs f (openssl_list dflt))"
  unfolding best_score_def using assms by (intro Max_in) auto

lemma best_score_upper:
  assumes "d \<in> set (existing_dirs f (openssl_list dflt))"
  shows "spec_score f dflt d \<le> best_score f dflt"
  unfolding best_score_def using assms by (intro Max_ge) auto

lemma tied_dirs_nonempty:
  assumes "existing_dirs f (openssl_list dflt) \<noteq> []"
  shows "tied_dirs f dflt \<noteq> []"
proof -
  obtain d where "d \<in> set (existing_dirs f (openssl_list dflt))"
    and "spec_score f dflt d = best_score f dflt"
    using best_score_attained [OF assms] by auto
  then have "d \<in> set (tied_dirs f dflt)" by (simp add: tied_dirs_def)
  then show ?thesis by auto
qed

lemma hd_filter_find: "filter P xs \<noteq> [] \<Longrightarrow> List.find P xs = Some (hd (filter P xs))"
  by (induction xs) auto

lemma find_filter_conj: "List.find P (filter Q xs) = List.find (\<lambda>x. Q x \<and> P x) xs"
  by (induction xs) auto

lemma hd_tied_dirs:
  assumes "tied_dirs f dflt \<noteq> []"
  shows "List.find (\<lambda>d. f d = Some Directory \<and> spec_score f dflt d = best_score f dflt)
           (openssl_list dflt) = Some (hd (tied_dirs f dflt))"
proof -
  have "List.find (\<lambda>d. spec_score f dflt d = best_score f dflt) (existing_dirs f (openssl_list dflt))
          = Some (hd (tied_dirs f dflt))"
    using assms unfolding tied_dirs_def by (rule hd_filter_find)
  then show ?thesis
    by (simp add: existing_dirs_def find_list_dedupe find_filter_conj)
qed

lemma set_tied_dirs:
  "set (tied_dirs f dflt) =
     {d \<in> set (openssl_list dflt). f d = Some Directory \<and> spec_score f dflt d = best_score f dflt}"
  by (auto simp: tied_dirs_def set_existing_dirs)

lemma distinct_tied_dirs: "distinct (tied_dirs f dflt)"
  by (simp add: tied_dirs_def distinct_existing_dirs)

section \<open>Claim C2: the threshold table\<close>

lemma filter_eq_singleton: "distinct xs \<Longrightarrow> d \<in> set xs \<Longrightarrow> filter (\<lambda>k. k = d) xs = [d]"
  by (induction xs) (auto simp: filter_empty_conv)

lemma default_scores_seven:
  assumes "d \<noteq> []" and "fs w d = Some Directory"
    and "fs w (os_path_join d ''cert.pem'') = Some RegularFile"
    and "fs w (os_path_join d ''certs'') = Some Directory"
  shows "spec_score (fs w) (Some d) d = 7"
    and "best_score (fs w) (Some d) = 7"
    and "tied_dirs (fs w) (Some d) = [d]"
proof -
  let ?ks = "existing_dirs (fs w) (openssl_list (Some d))"
  show s7: "spec_score (fs w) (Some d) d = 7"
    using assms by (simp add: spec_score_def)
  have mem: "d \<in> set ?ks"
    using assms by (simp add: set_existing_dirs openssl_list_def)
  then have ne: "?ks \<noteq> []" by auto
  have "7 \<le> best_score (fs w) (Some d)"
    using best_score_upper [OF mem] s7 by simp
  moreover have "best_score (fs w) (Some d) \<le> 7"
    using best_score_attained [OF ne] spec_score_bounds [of "fs w" "Some d"] by auto
  ultimately show b7: "best_score (fs w) (Some d) = 7" by simp
  have "spec_score (fs w) (Some d) k = 7 \<longleftrightarrow> k = d" for k
    using s7 by (auto simp: spec_score_def split: if_splits)
  then have "tied_dirs (fs w) (Some d) = filter (\<lambda>k. k = d) ?ks"
    by (simp add: tied_dirs_def b7)
  then show "tied_dirs (fs w) (Some d) = [d]"
    using filter_eq_singleton [OF distinct_existing_dirs mem] by simp
qed

text \<open>
  Claim C2. For a non-empty score table, \<^verbatim>\<open>_analyze_ranks\<close> returns a directory and
  the two flags of the threshold table: best score \<open>\<ge> 6\<close> gives (1, 1); \<open>4 \<le> best < 6\<close>
  gives (1, 0); \<open>2 \<le> best < 4\<close> gives (0, 1); \<open>best < 2\<close> gives (0, 0). And a system
  default directory that holds both \<^verbatim>\<open>cert.pem\<close> and \<^verbatim>\<open>certs/\<close> scores 7, is the one
  returned, and both flags are 1.
\<close>

theorem analyze_ranks_thresholds:
  "(r \<noteq> [] \<longrightarrow>
      (\<exists>k a b. fst (analyze_ranks r w) = Inr (Some k, a, b)
         \<and> (6 \<le> Max (snd ` set r) \<longrightarrow> a = 1 \<and> b = 1)
         \<and> (4 \<le> Max (snd ` set r) \<and> Max (snd ` set r) < 6 \<longrightarrow> a = 1 \<and> b = 0)
         \<and> (2 \<le> Max (snd ` set r) \<and> Max (snd ` set r) < 4 \<longrightarrow> a = 0 \<and> b = 1)
         \<and> (Max (snd ` set r) < 2 \<longrightarrow> a = 0 \<and> b = 0)))
   \<and> (d \<noteq> [] \<and> fs w d = Some Directory
        \<and> fs w (os_path_join d ''cert.pem'') = Some RegularFile
        \<and> fs w (os_path_join d ''certs'') = Some Directory \<longrightarrow>
      (\<exists>r'. fst (rank_openssl_dir (Some d) w) = Inr r' \<and> map_of r' d = Some 7)
      \<and> fst (ranker (Some d) w) = Inr (Some d, 1, 1))"
proof (intro conjI impI)
  assume ne: "r \<noteq> []"
  define m where "m = Max (snd ` set r)"
  have "fst (analyze_ranks r w) = Inr (Some (hd (max_keys_of r m)), flags_of m)"
    unfolding m_def by (simp add: analyze_ranks_nonempty [OF ne])
  moreover have "(6 \<le> m \<longrightarrow> flags_of m = (1, 1))
         \<and> (4 \<le> m \<and> m < 6 \<longrightarrow> flags_of m = (1, 0))
         \<and> (2 \<le> m \<and> m < 4 \<longrightarrow> flags_of m = (0, 1))
         \<and> (m < 2 \<longrightarrow> flags_of m = (0, 0))"
    by (simp add: flags_of_def)
  ultimately show "\<exists>k a b. fst (analyze_ranks r w) = Inr (Some k, a, b)
         \<and> (6 \<le> Max (snd ` set r) \<longrightarrow> a = 1 \<and> b = 1)
         \<and> (4 \<le> Max (snd ` set r) \<and> Max (snd ` set r) < 6 \<longrightarrow> a = 1 \<and> b = 0)
         \<and> (2 \<le> Max (snd ` set r) \<and> Max (snd ` set r) < 4 \<longrightarrow> a = 0 \<and> b = 1)
         \<and> (Max (snd ` set r) < 2 \<longrightarrow> a = 0 \<and> b = 0)"
    unfolding m_def [symmetric]
    by (cases "flags_of m") (metis prod.inject)
next
  assume a: "d \<noteq> [] \<and> fs w d = Some Directory
        \<and> fs w (os_path_join d ''cert.pem'') = Some RegularFile
        \<and> fs w (os_path_join d ''certs'') = Some Directory"
  then have mem: "d \<in> set (existing_dirs (fs w) (openssl_list (Some d)))"
    by (simp add: set_existing_dirs openssl_list_def)
  have "map_of (map (scored (fs w) (Some d)) (existing_dirs (fs w) (openssl_list (Some d)))) d = Some 7"
    using mem default_scores_seven(1) [of d w] a by (simp add: map_of_scored)
  then show "\<exists>r'. fst (rank_openssl_dir (Some d) w) = Inr r' \<and> map_of r' d = Some 7"
    by (simp add: fst_rank_openssl_dir)
  have ne: "existing_dirs (fs w) (openssl_list (Some d)) \<noteq> []"
    using mem by auto
  show "fst (ranker (Some d) w) = Inr (Some d, 1, 1)"
    using a default_scores_seven(2,3) [of d w]
    by (simp add: ranker_found [OF ne] flags_of_def)
qed

theorem analyze_ranks_thresholds_witness:
  "(\<exists>k. fst (analyze_ranks [(''/usr/lib/ssl'', 0), (''/etc/ssl'', 5)] (world_of fake_fs)) = Inr (Some k, 1, 0))
   \<and> (\<exists>k. fst (analyze_ranks [(''/usr/lib/ssl'', 2), (''/etc/ssl'', 0)] (world_of fake_fs)) = Inr (Some k, 0, 1))
   \<and> fst (ranker (Some ''/fakessl'') (world_of fake_fs)) = Inr (Some ''/fakessl'', 1, 1)"
proof -
  have "\<exists>k. fst (analyze_ranks [(''/usr/lib/ssl'', 0), (''/etc/ssl'', 5)] (world_of fake_fs)) = Inr (Some k, 1, 0)"
    using analyze_ranks_thresholds [of "[(''/usr/lib/ssl'', 0), (''/etc/ssl'', 5)]" "world_of fake_fs" "[]"]
    by auto
  moreover have "\<exists>k. fst (analyze_ranks [(''/usr/lib/ssl'', 2), (''/etc/ssl'', 0)] (world_of fake_fs)) = Inr (Some k, 0, 1)"
    using analyze_ranks_thresholds [of "[(''/usr/lib/ssl'', 2), (''/etc/ssl'', 0)]" "world_of fake_fs" "[]"]
    by auto
  moreover have "fst (ranker (Some ''/fakessl'') (world_of fake_fs)) = Inr (Some ''/fakessl'', 1, 1)"
    using analyze_ranks_thresholds [of "[]" "world_of fake_fs" "''/fakessl''"]
    by (simp add: world_of_def fake_fs_def os_path_join_def)
  ultimately show ?thesis by blast
qed

section \<open>Claim C3: ties\<close>

lemma openssl_list_spec: "openssl_list dflt = spec_candidates dflt"
  by (simp add: openssl_list_def spec_candidates_def DEFAULT_OPENSSLDIRS_def split: option.splits)

lemma spec_best_eq: "spec_best f dflt = best_score f dflt"
  by (simp add: spec_best_def best_score_def set_existing_dirs openssl_list_spec)

lemma spec_tied_eq: "spec_tied f dflt = set (tied_dirs f dflt)"
  by (simp add: spec_tied_def set_tied_dirs spec_best_eq openssl_list_spec)

lemma tied_dirs_order:
  "sorted_wrt (<) (map (first_index (openssl_list dflt)) (tied_dirs f dflt))"
proof -
  have "sorted_wrt (\<lambda>x y. first_index (openssl_list dflt) x < first_index (openssl_list dflt) y)
          (list_dedupe (openssl_list dflt))"
    using first_occurrence_order [of "openssl_list dflt"] by (simp add: sorted_wrt_map)
  then show ?thesis
    by (simp add: tied_dirs_def existing_dirs_def list_dedupe_filter sorted_wrt_map
          sorted_wrt_filter)
qed

text \<open>
  Claim C3. When two or more candidate directories are tied at the maximum score, the
  ranker prints the notice and then the list of the tied paths: each tied path once,
  nothing else, in the order of the candidate list. It returns the first of them, which
  is the first candidate of the list that is a directory and reaches the maximum. The
  candidate list is the system default when it was found, then \<^verbatim>\<open>/usr/share/ssl\<close>,
  \<^verbatim>\<open>/etc/pki/tls\<close>, \<^verbatim>\<open>/usr/lib/ssl\<close>, \<^verbatim>\<open>/etc/ssl\<close>, \<^verbatim>\<open>/usr/local/ssl\<close>,
  \<^verbatim>\<open>/System/Library/OpenSSL\<close>.
\<close>

theorem ties_reported_first_returned:
  assumes "2 \<le> card (spec_tied (fs w) dflt)"
  shows "\<exists>k a b ts.
      ranker dflt w =
        (Inr (Some k, a, b),
         w\<lparr>log := log w @ rank_queries (fs w) (spec_candidates dflt)
                 @ [Print multiple_msg, PrintList ts]\<rparr>)
      \<and> set ts = spec_tied (fs w) dflt
      \<and> distinct ts
      \<and> sorted_wrt (<) (map (first_index (spec_candidates dflt)) ts)
      \<and> k = hd ts
      \<and> List.find (\<lambda>d. fs w d = Some Directory
                        \<and> spec_score (fs w) dflt d = spec_best (fs w) dflt)
           (spec_candidates dflt) = Some k
      \<and> (\<forall>d \<in> set (spec_candidates dflt).
            fs w d = Some Directory \<longrightarrow> spec_score (fs w) dflt d \<le> spec_best (fs w) dflt)"
proof -
  let ?ts = "tied_dirs (fs w) dflt"
  have "card (set ?ts) = length ?ts"
    using distinct_tied_dirs by (rule distinct_card)
  then have len: "1 < length ?ts"
    using assms by (simp add: spec_tied_eq)
  then have t: "?ts \<noteq> []"
    by auto
  then have ne: "existing_dirs (fs w) (openssl_list dflt) \<noteq> []"
    by (auto simp: tied_dirs_def)
  obtain a b where ab: "flags_of (best_score (fs w) dflt) = (a, b)"
    by (cases "flags_of (best_score (fs w) dflt)")
  have 1: "ranker dflt w =
        (Inr (Some (hd ?ts), a, b),
         w\<lparr>log := log w @ rank_queries (fs w) (spec_candidates dflt)
                 @ [Print multiple_msg, PrintList ?ts]\<rparr>)"
    using len by (simp add: ranker_found [OF ne] ab openssl_list_spec)
  have 2: "set ?ts = spec_tied (fs w) dflt"
    by (simp add: spec_tied_eq)
  have 3: "distinct ?ts"
    by (rule distinct_tied_dirs)
  have 4: "sorted_wrt (<) (map (first_index (spec_candidates dflt)) ?ts)"
    using tied_dirs_order [of dflt "fs w"] by (simp add: openssl_list_spec)
  have 5: "List.find (\<lambda>d. fs w d = Some Directory
                        \<and> spec_score (fs w) dflt d = spec_best (fs w) dflt)
           (spec_candidates dflt) = Some (hd ?ts)"
    using hd_tied_dirs [OF t] by (simp add: spec_best_eq openssl_list_spec)
  have 6: "\<forall>d \<in> set (spec_candidates dflt).
            fs w d = Some Directory \<longrightarrow> spec_score (fs w) dflt d \<le> spec_best (fs w) dflt"
    using best_score_upper [of _ "fs w" dflt]
    by (simp add: set_existing_dirs spec_best_eq openssl_list_spec [symmetric])
  from 1 2 3 4 5 6 show ?thesis by blast
qed

lemma tie_fs_existing:
  "existing_dirs tie_fs (openssl_list None) = [''/usr/lib/ssl'', ''/etc/ssl'', ''/usr/local/ssl'']"
  "existing_dirs tie_fs (openssl_list (Some ''/usr/local/ssl''))
     = [''/usr/local/ssl'', ''/usr/lib/ssl'', ''/etc/ssl'']"
  by (simp_all add: existing_dirs_def path_simps tie_fs_def list_dedupe_def)

lemma tie_fs_scores:
  "spec_score tie_fs None ''/usr/lib/ssl'' = 2"
  "spec_score tie_fs None ''/etc/ssl'' = 2"
  "spec_score tie_fs None ''/usr/local/ssl'' = 0"
  "spec_score tie_fs (Some ''/usr/local/ssl'') ''/usr/lib/ssl'' = 2"
  "spec_score tie_fs (Some ''/usr/local/ssl'') ''/etc/ssl'' = 2"
  "spec_score tie_fs (Some ''/usr/local/ssl'') ''/usr/local/ssl'' = 1"
  by (simp_all add: spec_score_def tie_fs_def os_path_join_def)

lemma tie_fs_best:
  "spec_best tie_fs None = 2"
  "spec_best tie_fs (Some ''/usr/local/ssl'') = 2"
  by (simp_all add: spec_best_eq best_score_def tie_fs_existing tie_fs_scores)

lemma tie_fs_tied:
  "spec_tied tie_fs None = {''/usr/lib/ssl'', ''/etc/ssl''}"
  "spec_tied tie_fs (Some ''/usr/local/ssl'') = {''/usr/lib/ssl'', ''/etc/ssl''}"
  by (simp_all add: spec_tied_eq tied_dirs_def best_score_def tie_fs_existing tie_fs_scores)

lemma tie_fs_first:
  "List.find (\<lambda>d. tie_fs d = Some Directory \<and> spec_score tie_fs None d = 2)
     (spec_candidates None) = Some ''/usr/lib/ssl''"
  "List.find (\<lambda>d. tie_fs d = Some Directory \<and> spec_score tie_fs (Some ''/usr/local/ssl'') d = 2)
     (spec_candidates (Some ''/usr/local/ssl'')) = Some ''/usr/lib/ssl''"
  by (simp_all add: spec_candidates_def tie_fs_scores) (simp_all add: tie_fs_def)

theorem ties_reported_first_returned_witness:
  "(\<exists>a b ts. fst (ranker None (world_of tie_fs)) = Inr (Some ''/usr/lib/ssl'', a, b)
       \<and> last (log (snd (ranker None (world_of tie_fs)))) = PrintList ts
       \<and> set ts = {''/usr/lib/ssl'', ''/etc/ssl''})
   \<and> (\<exists>a b ts. fst (ranker (Some ''/usr/local/ssl'') (world_of tie_fs))
                  = Inr (Some ''/usr/lib/ssl'', a, b)
       \<and> last (log (snd (ranker (Some ''/usr/local/ssl'') (world_of tie_fs)))) = PrintList ts
       \<and> set ts = {''/usr/lib/ssl'', ''/etc/ssl''})"
proof -
  let ?W = "world_of tie_fs"
  have f: "fs ?W = tie_fs" by (simp add: world_of_def)
  have h: "2 \<le> card (spec_tied (fs ?W) None)"
    "2 \<le> card (spec_tied (fs ?W) (Some ''/usr/local/ssl''))"
    by (simp_all add: f tie_fs_tied)
  have use: "\<exists>a b ts. fst (ranker dflt ?W) = Inr (Some ''/usr/lib/ssl'', a, b)
       \<and> last (log (snd (ranker dflt ?W))) = PrintList ts
       \<and> set ts = {''/usr/lib/ssl'', ''/etc/ssl''}"
    if two: "2 \<le> card (spec_tied (fs ?W) dflt)"
      and tied: "spec_tied tie_fs dflt = {''/usr/lib/ssl'', ''/etc/ssl''}"
      and best: "spec_best tie_fs dflt = 2"
      and first: "List.find (\<lambda>d. tie_fs d = Some Directory \<and> spec_score tie_fs dflt d = 2)
                    (spec_candidates dflt) = Some ''/usr/lib/ssl''"
    for dflt
  proof -
    from ties_reported_first_returned [OF two]
    obtain k a b ts where r: "ranker dflt ?W =
        (Inr (Some k, a, b),
         ?W\<lparr>log := log ?W @ rank_queries (fs ?W) (spec_candidates dflt)
                 @ [Print multiple_msg, PrintList ts]\<rparr>)"
      and s: "set ts = spec_tied (fs ?W) dflt"
      and fi: "List.find (\<lambda>d. fs ?W d = Some Directory
                        \<and> spec_score (fs ?W) dflt d = spec_best (fs ?W) dflt)
           (spec_candidates dflt) = Some k"
      by blast
    have k: "k = ''/usr/lib/ssl''"
      using fi unfolding f best first by simp
    have "fst (ranker dflt ?W) = Inr (Some ''/usr/lib/ssl'', a, b)"
      unfolding r k by simp
    moreover have "last (log (snd (ranker dflt ?W))) = PrintList ts"
      unfolding r by simp
    moreover have "set ts = {''/usr/lib/ssl'', ''/etc/ssl''}"
      using s unfolding f tied .
    ultimately show ?thesis by blast
  qed
  show ?thesis
    using use [OF h(1) tie_fs_tied(1) tie_fs_best(1) tie_fs_first(1)]
      use [OF h(2) tie_fs_tied(2) tie_fs_best(2) tie_fs_first(2)]
    by (rule conjI)
qed

section \<open>Claim C5: the two flags\<close>

text \<open>
  Claim C5 says the cert-directory flag is set whenever the best score is at least 2.
  It is not: a directory that holds \<^verbatim>\<open>cert.pem\<close> and no \<^verbatim>\<open>certs/\<close> scores 4, and
  \<^verbatim>\<open>_analyze_ranks\<close> returns the cert-file flag 1 and the cert-directory flag 0.
\<close>

theorem cert_dir_threshold_counterexample:
  "fst (rank_openssl_dir None (world_of pem_only_fs)) = Inr [(''/etc/ssl'', 4)]
   \<and> py_max (map snd [(''/etc/ssl'', 4 :: int)]) = Inr 4
   \<and> fst (analyze_ranks [(''/etc/ssl'', 4)] (world_of pem_only_fs)) = Inr (Some ''/etc/ssl'', 1, 0)
   \<and> fst (ranker None (world_of pem_only_fs)) = Inr (Some ''/etc/ssl'', 1, 0)"
proof -
  have e: "existing_dirs pem_only_fs (openssl_list None) = [''/etc/ssl'']"
    by (simp add: existing_dirs_def path_simps pem_only_fs_def list_dedupe_def)
  have s: "spec_score pem_only_fs None ''/etc/ssl'' = 4"
    by (simp add: spec_score_def pem_only_fs_def os_path_join_def)
  have r: "fst (rank_openssl_dir None (world_of pem_only_fs)) = Inr [(''/etc/ssl'', 4)]"
    by (simp add: fst_rank_openssl_dir world_of_def e scored_def s)
  have a: "fst (analyze_ranks [(''/etc/ssl'', 4)] w) = Inr (Some ''/etc/ssl'', 1, 0)" for w
    by (simp add: analyze_ranks_def py_max_def max_keys_of_def first_key_def)
  have "fst (ranker None (world_of pem_only_fs)) = Inr (Some ''/etc/ssl'', 1, 0)"
    by (simp add: ranker_eq world_of_def e scored_def s a)
  with r a show ?thesis by (simp add: py_max_def)
qed

text \<open>
  Claim C5, amended. For every score table, \<^verbatim>\<open>_analyze_ranks\<close> returns flags that are
  0 or 1; the cert-file flag is 1 exactly when the table is not empty and the best score
  is at least 4; the cert-directory flag is 1 exactly when the table is not empty and the
  best score is at least 6, or at least 2 and below 4.
\<close>

theorem analyze_ranks_flags:
  "\<exists>k a b. fst (analyze_ranks r w) = Inr (k, a, b)
     \<and> (a = 1 \<or> a = 0) \<and> (b = 1 \<or> b = 0)
     \<and> (a = 1 \<longleftrightarrow> r \<noteq> [] \<and> 4 \<le> Max (snd ` set r))
     \<and> (b = 1 \<longleftrightarrow> r \<noteq> [] \<and> (6 \<le> Max (snd ` set r)
                                \<or> (2 \<le> Max (snd ` set r) \<and> Max (snd ` set r) < 4)))"
proof (cases "r = []")
  case True
  then show ?thesis by (simp add: analyze_ranks_empty)
next
  case False
  define m where "m = Max (snd ` set r)"
  have "fst (analyze_ranks r w) = Inr (Some (hd (max_keys_of r m)), flags_of m)"
    unfolding m_def by (simp add: analyze_ranks_nonempty [OF False])
  moreover obtain a b where ab: "flags_of m = (a, b)" by (cases "flags_of m")
  moreover have "(a = 1 \<or> a = 0) \<and> (b = 1 \<or> b = 0)
     \<and> (a = 1 \<longleftrightarrow> 4 \<le> m) \<and> (b = 1 \<longleftrightarrow> (6 \<le> m \<or> (2 \<le> m \<and> m < 4)))"
    using ab by (auto simp: flags_of_def split: if_splits)
  ultimately show ?thesis
    unfolding m_def [symmetric] using False by auto
qed


section \<open>Claim C8: the ranker only reads\<close>

lemma ranker_total:
  "\<exists>k a b. ranker dflt w =
      (Inr (k, a, b),
       w\<lparr>log := log w @ rank_queries (fs w) (openssl_list dflt)
               @ (if 1 < length (tied_dirs (fs w) dflt)
                  then [Print multiple_msg, PrintList (tied_dirs (fs w) dflt)] else [])\<rparr>)
      \<and> (a = 0 \<or> a = 1) \<and> (b = 0 \<or> b = 1) \<and> (k = None \<longrightarrow> a = 0 \<and> b = 0)"
proof (cases "existing_dirs (fs w) (openssl_list dflt) = []")
  case True
  then have "tied_dirs (fs w) dflt = []" by (simp add: tied_dirs_def)
  then show ?thesis by (simp add: ranker_not_found [OF True])
next
  case False
  obtain a b where ab: "flags_of (best_score (fs w) dflt) = (a, b)"
    by (cases "flags_of (best_score (fs w) dflt)")
  then have "(a = 0 \<or> a = 1) \<and> (b = 0 \<or> b = 1)"
    by (auto simp: flags_of_def split: if_splits)
  then show ?thesis
    unfolding ranker_found [OF False] ab by simp
qed

text \<open>
  Claim C8. The ranking step never raises and always returns a triple: a directory or
  \<^verbatim>\<open>None\<close>, and two flags that are 0 or 1 (both 0 when no directory is returned). It
  leaves the filesystem, the standard input and the logger as they were, and everything
  it does is a filesystem question or a console write, never a mutation.
\<close>

theorem ranker_read_only:
  "\<exists>k a b evs.
      ranker dflt w = (Inr (k, a, b), w\<lparr>log := log w @ evs\<rparr>)
      \<and> fs (snd (ranker dflt w)) = fs w
      \<and> (\<forall>e \<in> set evs. (is_query e \<or> is_console e) \<and> \<not> is_mutation e)
      \<and> (a = 0 \<or> a = 1) \<and> (b = 0 \<or> b = 1) \<and> (k = None \<longrightarrow> a = 0 \<and> b = 0)"
proof -
  let ?evs = "rank_queries (fs w) (openssl_list dflt)
               @ (if 1 < length (tied_dirs (fs w) dflt)
                  then [Print multiple_msg, PrintList (tied_dirs (fs w) dflt)] else [])"
  obtain k a b where r: "ranker dflt w = (Inr (k, a, b), w\<lparr>log := log w @ ?evs\<rparr>)"
    and ab: "(a = 0 \<or> a = 1) \<and> (b = 0 \<or> b = 1) \<and> (k = None \<longrightarrow> a = 0 \<and> b = 0)"
    using ranker_total [of dflt w] by auto
  have q: "is_query e \<Longrightarrow> \<not> is_mutation e" for e
    by (cases e) auto
  have "\<forall>e \<in> set ?evs. (is_query e \<or> is_console e) \<and> \<not> is_mutation e"
    using rank_queries_are_queries [of _ "fs w" "openssl_list dflt"] q by auto
  moreover have "fs (snd (ranker dflt w)) = fs w"
    by (simp add: r)
  ultimately show ?thesis using r ab by blast
qed

theorem ranker_read_only_witness:
  "(\<exists>t. fst (ranker (Some ''/fakessl'') (world_of fake_fs)) = Inr t)
   \<and> fs (snd (ranker (Some ''/fakessl'') (world_of fake_fs))) = fake_fs
   \<and> (\<exists>t. fst (ranker None (world_of (\<lambda>p. None))) = Inr t)"
  using ranker_read_only [of "Some ''/fakessl''" "world_of fake_fs"]
    ranker_read_only [of None "world_of (\<lambda>p. None)"]
  by (auto simp: world_of_def)



section \<open>Claim C10: the default listed twice\<close>

lemma dict_set_same: "map_of r k = Some v \<Longrightarrow> dict_set r k v = r"
  by (induction r) (auto split: if_splits)

lemma fst_rank_loop_general:
  "fst (rank_loop dflt ds (map (scored (fs w) dflt) ks) w)
     = Inr (map (scored (fs w) dflt)
              (list_dedupe_loop (filter (\<lambda>d. fs w d = Some Directory) ds) ks))"
  by (simp add: rank_loop_eq)

lemma fst_rank_loop_from_empty:
  "fst (rank_loop dflt ds [] w) = Inr (map (scored (fs w) dflt) (existing_dirs (fs w) ds))"
  using fst_rank_loop_general [of dflt ds w "[]"]
  by (simp add: existing_dirs_def list_dedupe_def)

lemma existing_dirs_removeAll:
  "existing_dirs f (d # removeAll d ds) = existing_dirs f (d # ds)"
  unfolding existing_dirs_def list_dedupe_filter
  by (simp only: list_dedupe_removeAll)

lemma default_dirs_nonempty: "d \<in> set DEFAULT_OPENSSLDIRS \<Longrightarrow> d \<noteq> []"
  by (auto simp: DEFAULT_OPENSSLDIRS_def)

lemma filter_key_scored:
  "filter (\<lambda>(k, v). k = d) (map (scored f dflt) ks) = map (scored f dflt) (filter (\<lambda>k. k = d) ks)"
  by (induction ks) (simp_all add: scored_def)

lemma count_key_scored:
  assumes "distinct ks"
  shows "length (filter (\<lambda>(k, v). k = d) (map (scored f dflt) ks)) = (if d \<in> set ks then 1 else 0)"
proof (cases "d \<in> set ks")
  case True
  then show ?thesis
    unfolding filter_key_scored using filter_eq_singleton [OF assms True] by simp
next
  case False
  then have "filter (\<lambda>k. k = d) ks = []"
    by (auto simp: filter_empty_conv)
  with False show ?thesis
    unfolding filter_key_scored by simp
qed

lemma revisit_same:
  assumes "fs w d = Some Directory \<longrightarrow> map_of r d = Some (spec_score (fs w) dflt d)"
  shows "fst (rank_loop dflt [d] r w) = Inr r"
proof (cases "fs w d = Some Directory")
  case True
  then have "dict_set r d (spec_score (fs w) dflt d) = r"
    using assms by (simp add: dict_set_same)
  then show ?thesis
    unfolding rank_loop_dir [OF True] by simp
next
  case False
  show ?thesis
    unfolding rank_loop_nodir [OF False] by simp
qed

text \<open>
  Claim C10. When the system default is also in the fixed list, the score table is the
  one a pass over the list with the default listed once would build; the table has one
  entry for the default when it is a directory on disk (and none otherwise); and visiting
  the default again on the finished table leaves the table as it is.
\<close>

theorem duplicate_candidate_harmless:
  assumes "d \<in> set DEFAULT_OPENSSLDIRS"
  shows "\<exists>r. fst (rank_openssl_dir (Some d) w) = Inr r
           \<and> fst (rank_loop (Some d) (d # removeAll d DEFAULT_OPENSSLDIRS) [] w) = Inr r
           \<and> length (filter (\<lambda>(k, v). k = d) r) = (if fs w d = Some Directory then 1 else 0)
           \<and> fst (rank_loop (Some d) [d] r w) = Inr r"
proof -
  let ?r = "map (scored (fs w) (Some d)) (existing_dirs (fs w) (d # DEFAULT_OPENSSLDIRS))"
  have l: "openssl_list (Some d) = d # DEFAULT_OPENSSLDIRS"
    using default_dirs_nonempty [OF assms] by (simp add: openssl_list_def)
  have 1: "fst (rank_openssl_dir (Some d) w) = Inr ?r"
    by (simp add: fst_rank_openssl_dir l)
  have 2: "fst (rank_loop (Some d) (d # removeAll d DEFAULT_OPENSSLDIRS) [] w) = Inr ?r"
    unfolding fst_rank_loop_from_empty existing_dirs_removeAll ..
  have 3: "length (filter (\<lambda>(k, v). k = d) ?r) = (if fs w d = Some Directory then 1 else 0)"
    using count_key_scored [OF distinct_existing_dirs,
        where d = d and f = "fs w" and dflt = "Some d" and ?f1 = "fs w" and ?ds1 = "d # DEFAULT_OPENSSLDIRS"]
    by (simp add: set_existing_dirs)
  have "fs w d = Some Directory \<longrightarrow> map_of ?r d = Some (spec_score (fs w) (Some d) d)"
    by (simp add: map_of_scored set_existing_dirs)
  then have 4: "fst (rank_loop (Some d) [d] ?r w) = Inr ?r"
    by (rule revisit_same)
  from 1 2 3 4 show ?thesis by blast
qed

theorem duplicate_candidate_harmless_witness:
  "\<exists>r. fst (rank_openssl_dir (Some ''/etc/ssl'') (world_of fake_fs)) = Inr r
     \<and> fst (rank_loop (Some ''/etc/ssl'')
              [''/etc/ssl'', ''/usr/share/ssl'', ''/etc/pki/tls'', ''/usr/lib/ssl'',
               ''/usr/local/ssl'', ''/System/Library/OpenSSL''] [] (world_of fake_fs)) = Inr r
     \<and> length (filter (\<lambda>(k, v). k = ''/etc/ssl'') r) = 1"
proof -
  have m: "''/etc/ssl'' \<in> set DEFAULT_OPENSSLDIRS"
    by (simp add: DEFAULT_OPENSSLDIRS_def)
  have e: "''/etc/ssl'' # removeAll ''/etc/ssl'' DEFAULT_OPENSSLDIRS =
             [''/etc/ssl'', ''/usr/share/ssl'', ''/etc/pki/tls'', ''/usr/lib/ssl'',
               ''/usr/local/ssl'', ''/System/Library/OpenSSL'']"
    by (simp add: DEFAULT_OPENSSLDIRS_def)
  have f: "fs (world_of fake_fs) ''/etc/ssl'' = Some Directory"
    by (simp add: world_of_def fake_fs_def)
  show ?thesis
    using duplicate_candidate_harmless [OF m, of "world_of fake_fs"]
    unfolding e by (auto simp: f)
qed


section \<open>Claim C4: a failed lookup is not fatal\<close>

lemma quiet_env_simps:
  "is_win quiet_env = False"
  "which quiet_env = (\<lambda>cmd. None)"
  "abs_target quiet_env d = d"
  "abspath quiet_env p = p"
  "script_dir quiet_env = ''/tmp/unpack''"
  "chdir_fx quiet_env = (\<lambda>d. None)"
  "openssl_version_d quiet_env = Raised (OSError ''No such file or directory'')"
  "copytree_fx quiet_env = (\<lambda>src dst f. (None, f(dst \<mapsto> Directory)))"
  "relocate_python_fx quiet_env = (\<lambda>prefix verbose use_env f. (None, f))"
  "version_major_minor quiet_env = (''3'', ''8'')"
  by (simp_all add: quiet_env_def abs_target_def)

lemma get_default_openssldir_fs:
  "fs (snd (get_default_openssldir E w)) = fs w"
  by (simp add: get_default_openssldir_def Let_def emit_def
        split: proc_result.splits exc.splits list.splits)

lemma no_dirs_existing:
  "(\<forall>d \<in> set ds. f d \<noteq> Some Directory) \<Longrightarrow> existing_dirs f ds = []"
  using set_existing_dirs [of f ds] by (metis (mono_tags, lifting) empty_Collect_eq set_empty)

lemma get_openssl_text_after:
  assumes "get_default_openssldir E w = (Inr dflt, w1)"
  shows "\<exists>t. fst (get_openssl_text E w) = Inr (openssl_text t) \<and> fst (ranker dflt w1) = Inr t"
proof -
  obtain k a b w2 where "ranker dflt w1 = (Inr (k, a, b), w2)"
    using ranker_total [of dflt w1] by blast
  then show ?thesis
    using assms by (simp add: get_openssl_text_def)
qed

text \<open>
  Claim C4. On an empty score table \<^verbatim>\<open>_analyze_ranks\<close> returns \<^verbatim>\<open>(None, 0, 0)\<close>; when
  no candidate is a directory on disk the table is empty and the ranker returns that
  triple. When the \<^verbatim>\<open>openssl\<close> subprocess fails (\<^verbatim>\<open>OSError\<close>, which an absent tool
  raises, or \<^verbatim>\<open>CalledProcessError\<close>), \<^verbatim>\<open>_get_default_openssldir\<close> returns \<^verbatim>\<open>None\<close> and
  \<^verbatim>\<open>_get_openssl_text\<close> returns a triple of strings; and whenever no candidate is a
  directory, that triple is the "not found" message with two empty strings.
\<close>

theorem lookup_failure_not_fatal:
  "analyze_ranks [] w = (Inr (None, 0, 0), w)
   \<and> ((\<forall>d \<in> set (openssl_list dflt). fs w d \<noteq> Some Directory) \<longrightarrow>
        fst (rank_openssl_dir dflt w) = Inr [] \<and> fst (ranker dflt w) = Inr (None, 0, 0))
   \<and> ((\<exists>m. openssl_version_d E = Raised (OSError m)) \<or> openssl_version_d E = Raised CalledProcessError \<longrightarrow>
        fst (get_default_openssldir E w) = Inr None \<and> (\<exists>t. fst (get_openssl_text E w) = Inr t))
   \<and> (fst (get_default_openssldir E w) = Inr dflt
        \<and> (\<forall>d \<in> set (openssl_list dflt). fs w d \<noteq> Some Directory) \<longrightarrow>
        fst (get_openssl_text E w) = Inr (not_found_msg, [], []))"
proof (intro conjI impI)
  show "analyze_ranks [] w = (Inr (None, 0, 0), w)"
    by (rule analyze_ranks_empty)
next
  assume "\<forall>d \<in> set (openssl_list dflt). fs w d \<noteq> Some Directory"
  then have e: "existing_dirs (fs w) (openssl_list dflt) = []"
    by (rule no_dirs_existing)
  show "fst (rank_openssl_dir dflt w) = Inr []"
    by (simp add: fst_rank_openssl_dir e)
  show "fst (ranker dflt w) = Inr (None, 0, 0)"
    by (simp add: ranker_not_found [OF e])
next
  assume a: "(\<exists>m. openssl_version_d E = Raised (OSError m)) \<or> openssl_version_d E = Raised CalledProcessError"
  then show n: "fst (get_default_openssldir E w) = Inr None"
    by (auto simp: get_default_openssldir_def Let_def)
  then obtain w1 where "get_default_openssldir E w = (Inr None, w1)"
    by (cases "get_default_openssldir E w") auto
  from get_openssl_text_after [OF this]
  show "\<exists>t. fst (get_openssl_text E w) = Inr t" by blast
next
  assume a: "fst (get_default_openssldir E w) = Inr dflt
        \<and> (\<forall>d \<in> set (openssl_list dflt). fs w d \<noteq> Some Directory)"
  then obtain w1 where g: "get_default_openssldir E w = (Inr dflt, w1)"
    by (cases "get_default_openssldir E w") auto
  have "fs w1 = fs w"
    using get_default_openssldir_fs [of E w] g by simp
  then have "existing_dirs (fs w1) (openssl_list dflt) = []"
    using a no_dirs_existing by metis
  then have "fst (ranker dflt w1) = Inr (None, 0, 0)"
    by (simp add: ranker_not_found)
  with get_openssl_text_after [OF g]
  show "fst (get_openssl_text E w) = Inr (not_found_msg, [], [])"
    by (auto simp: openssl_text_def)
qed

theorem lookup_failure_not_fatal_witness:
  "fst (get_default_openssldir quiet_env (world_of file_fs)) = Inr None
   \<and> fst (get_openssl_text quiet_env (world_of file_fs)) = Inr (not_found_msg, [], [])
   \<and> fst (ranker None (world_of file_fs)) = Inr (None, 0, 0)"
proof -
  have nd: "\<forall>d \<in> set (openssl_list None). fs (world_of file_fs) d \<noteq> Some Directory"
    by (simp add: path_simps world_of_def file_fs_def)
  show ?thesis
    using lookup_failure_not_fatal [of "world_of file_fs" None quiet_env] nd
    by (simp add: quiet_env_simps)
qed

section \<open>Claim C6: validation comes before any mutation\<close>

lemmas action_defs = and_then_def ret_def raise_def effect_def query_def

lemma validateInstallDir_eq:
  "validateInstallDir p w =
     (if fs w p = None then (Inr (), w\<lparr>log := log w @ [Exists p]\<rparr>)
      else if fs w p = Some Directory then (Inr (), w\<lparr>log := log w @ [Exists p, IsDir p]\<rparr>)
      else (Inl (not_a_directory p), w\<lparr>log := log w @ [Exists p, IsDir p]\<rparr>))"
  by (simp add: validateInstallDir_def action_defs os_path_exists_def os_path_isdir_def
        emit_def not_a_directory_def)

lemma install_bad_target:
  assumes "fs w (abs_target E d) \<noteq> None" and "fs w (abs_target E d) \<noteq> Some Directory"
  shows "install E d useEnv setRootRunpath registerCOM pathAdditions w =
           (if setRootRunpath \<and> which E ''patchelf'' = None then
              (Inl (SystemExit 1),
               w\<lparr>log := log w @ [Which ''patchelf'', Print
                 ''When changing RPATH, the patchelf is required but is missing. Please install.'']\<rparr>)
            else case chdir_fx E (script_dir E) of
              Some e \<Rightarrow>
                (Inl e, w\<lparr>log := log w @ (if setRootRunpath then [Which ''patchelf''] else [])
                                 @ [Chdir (script_dir E)]\<rparr>)
            | None \<Rightarrow>
                (Inl (not_a_directory (abs_target E d)),
                 w\<lparr>log := log w @ (if setRootRunpath then [Which ''patchelf''] else [])
                    @ [Chdir (script_dir E),
                       Print (''Installing ActivePython to '' @ quote (abs_target E d) @ ''...''),
                       Exists (abs_target E d), IsDir (abs_target E d)]\<rparr>))"
  using assms
  by (auto simp: install_def action_defs shutil_which_def os_chdir_def emit_def Let_def
        validateInstallDir_eq abs_target_def [symmetric] split: option.splits)

text \<open>
  Claim C6. \<^verbatim>\<open>_validateInstallDir\<close> raises its \<^verbatim>\<open>Error\<close> exactly when the path exists
  and is not a directory, and returns normally otherwise; it does not change the
  filesystem. When the target of \<^verbatim>\<open>install\<close> exists and is not a directory,
  \<^verbatim>\<open>install\<close> ends with an exception, the filesystem is as it was, and nothing it did
  is a mutation: no copy, no write, no outside program. The exception is the validation
  \<^verbatim>\<open>Error\<close> unless \<^verbatim>\<open>install\<close> already stopped before it (\<^verbatim>\<open>patchelf\<close> missing when a
  RUNPATH was asked for, or \<^verbatim>\<open>os.chdir\<close> failing).
\<close>

theorem validate_before_mutation:
  "fst (validateInstallDir p w) =
     (if fs w p \<noteq> None \<and> fs w p \<noteq> Some Directory then Inl (not_a_directory p) else Inr ())
   \<and> fs (snd (validateInstallDir p w)) = fs w
   \<and> (fs w (abs_target E d) \<noteq> None \<and> fs w (abs_target E d) \<noteq> Some Directory \<longrightarrow>
        (\<exists>e evs.
           install E d useEnv setRootRunpath registerCOM pathAdditions w
             = (Inl e, w\<lparr>log := log w @ evs\<rparr>)
           \<and> (\<forall>ev \<in> set evs. \<not> is_mutation ev)
           \<and> (\<not> (setRootRunpath \<and> which E ''patchelf'' = None)
                \<and> chdir_fx E (script_dir E) = None \<longrightarrow>
              e = not_a_directory (abs_target E d))))"
proof (intro conjI impI)
  show "fst (validateInstallDir p w) =
     (if fs w p \<noteq> None \<and> fs w p \<noteq> Some Directory then Inl (not_a_directory p) else Inr ())"
    by (simp add: validateInstallDir_eq)
  show "fs (snd (validateInstallDir p w)) = fs w"
    by (simp add: validateInstallDir_eq)
next
  assume a: "fs w (abs_target E d) \<noteq> None \<and> fs w (abs_target E d) \<noteq> Some Directory"
  note eq = install_bad_target [of w E d useEnv setRootRunpath registerCOM pathAdditions]
  show "\<exists>e evs.
           install E d useEnv setRootRunpath registerCOM pathAdditions w
             = (Inl e, w\<lparr>log := log w @ evs\<rparr>)
           \<and> (\<forall>ev \<in> set evs. \<not> is_mutation ev)
           \<and> (\<not> (setRootRunpath \<and> which E ''patchelf'' = None)
                \<and> chdir_fx E (script_dir E) = None \<longrightarrow>
              e = not_a_directory (abs_target E d))"
  proof (cases "setRootRunpath \<and> which E ''patchelf'' = None")
    case True
    then show ?thesis
      using a by (subst eq) (simp_all, fastforce)
  next
    case False
    show ?thesis
    proof (cases "chdir_fx E (script_dir E)")
      case None
      with False show ?thesis
        using a by (subst eq) (simp_all, fastforce)
    next
      case (Some e)
      with False show ?thesis
        using a by (subst eq) (simp_all, fastforce)
    qed
  qed
qed

theorem validate_before_mutation_witness:
  "fst (validateInstallDir ''/opt/x'' (world_of file_fs)) = Inl (not_a_directory ''/opt/x'')
   \<and> fst (validateInstallDir ''/opt/new'' (world_of file_fs)) = Inr ()
   \<and> fst (install quiet_env ''/opt/x'' False False False False (world_of file_fs))
       = Inl (not_a_directory ''/opt/x'')
   \<and> fs (snd (install quiet_env ''/opt/x'' False False False False (world_of file_fs))) = file_fs"
proof -
  have f: "fs (world_of file_fs) = file_fs" by (simp add: world_of_def)
  have x: "file_fs ''/opt/x'' = Some RegularFile" and n: "file_fs ''/opt/new'' = None"
    by (simp_all add: file_fs_def)
  have 1: "fst (validateInstallDir ''/opt/x'' (world_of file_fs)) = Inl (not_a_directory ''/opt/x'')"
    using validate_before_mutation [of "''/opt/x''" "world_of file_fs" quiet_env "''/opt/x''"]
    by (simp add: f x)
  have 2: "fst (validateInstallDir ''/opt/new'' (world_of file_fs)) = Inr ()"
    using validate_before_mutation [of "''/opt/new''" "world_of file_fs" quiet_env "''/opt/x''"]
    by (simp add: f n)
  have "\<exists>e evs.
           install quiet_env ''/opt/x'' False False False False (world_of file_fs)
             = (Inl e, (world_of file_fs)\<lparr>log := log (world_of file_fs) @ evs\<rparr>)
           \<and> e = not_a_directory ''/opt/x''"
    using validate_before_mutation [of "''/opt/x''" "world_of file_fs" quiet_env "''/opt/x''"
        False False False False]
    by (auto simp: f x quiet_env_simps)
  then have "fst (install quiet_env ''/opt/x'' False False False False (world_of file_fs))
       = Inl (not_a_directory ''/opt/x'')
   \<and> fs (snd (install quiet_env ''/opt/x'' False False False False (world_of file_fs))) = file_fs"
    using f by auto
  with 1 2 show ?thesis by simp
qed

section \<open>Claim C7: failures and the exit status\<close>

lemma install_good_target:
  assumes "\<not> (setRootRunpath \<and> which E ''patchelf'' = None)"
    and "chdir_fx E (script_dir E) = None"
    and "fs w (abs_target E d) = None \<or> fs w (abs_target E d) = Some Directory"
  shows "install E d useEnv setRootRunpath registerCOM pathAdditions w =
           (if is_win E then windows_install E (abs_target E d) registerCOM pathAdditions
            else posix_install E (abs_target E d) useEnv setRootRunpath)
             (w\<lparr>log := log w @ (if setRootRunpath then [Which ''patchelf''] else [])
                 @ [Chdir (script_dir E),
                    Print (''Installing ActivePython to '' @ quote (abs_target E d) @ ''...''),
                    Exists (abs_target E d)]
                 @ (if fs w (abs_target E d) = None then [] else [IsDir (abs_target E d)])\<rparr>)"
  using assms
  by (auto simp: install_def action_defs shutil_which_def os_chdir_def emit_def Let_def
        validateInstallDir_eq abs_target_def [symmetric] split: option.splits)

lemma posix_install_interrupted:
  assumes "copytree_fx E (abspath E ''./INSTALLDIR'') t (fs w) = (Some KeyboardInterrupt, f)"
  shows "posix_install E t useEnv setRootRunpath w =
           (Inl KeyboardInterrupt,
            w\<lparr>fs := f, log := log w @ [CopyTree (abspath E ''./INSTALLDIR'') t]\<rparr>)"
  using assms
  by (simp add: posix_install_def and_then_def try_copytree_def outside_def emit_def)

lemma posix_install_copy_error:
  assumes "copytree_fx E (abspath E ''./INSTALLDIR'') t (fs w) = (Some (OSError m), f)"
  shows "try_copytree E (abspath E ''./INSTALLDIR'') t w =
           (Inr (), w\<lparr>fs := f, log := log w @ [CopyTree (abspath E ''./INSTALLDIR'') t, Print m]\<rparr>)"
  using assms
  by (simp add: try_copytree_def outside_def emit_def)

lemma main_after_options:
  assumes "getopt E (tl argv) = Inr (opts, args)"
    and "opts_loop opts initial_settings w = (Some st, w1)"
    and "run_install E st w1 = (r, w2)"
  shows "main E argv w =
           (case r of
              Inr u \<Rightarrow> (Inr None, w2)
            | Inl (OSError msg) \<Rightarrow> (Inr (Some 1), report_error msg w2)
            | Inl (Error msg) \<Rightarrow> (Inr (Some 1), report_error msg w2)
            | Inl KeyboardInterrupt \<Rightarrow>
                (Inr None, if debug w2 then emit (LogDebug ''user abort'') w2 else w2)
            | Inl e \<Rightarrow> (Inl e, w2))"
  using assms by (simp add: main_def)

text \<open>
  Claim C7, amended. When \<^verbatim>\<open>getopt.getopt\<close> raises \<^verbatim>\<open>GetoptError\<close>, \<^verbatim>\<open>main\<close> logs the
  error and the hint and returns 1. When an \<^verbatim>\<open>Error\<close> or an \<^verbatim>\<open>OSError\<close> propagates
  out of the guarded call of \<^verbatim>\<open>install\<close> or \<^verbatim>\<open>interactiveInstall\<close>, \<^verbatim>\<open>main\<close> logs it
  once (followed by a traceback when DEBUG is on) and returns 1. In both cases the
  process exits with status 1. When a \<^verbatim>\<open>KeyboardInterrupt\<close> propagates out of that
  guarded call, \<^verbatim>\<open>main\<close> catches it and returns \<^verbatim>\<open>None\<close>, the process exits with
  status 0, and \<^verbatim>\<open>main\<close> touches the filesystem no further. A \<^verbatim>\<open>KeyboardInterrupt\<close>
  raised by \<^verbatim>\<open>getopt.getopt\<close>, before the guarded call, is not caught: it leaves
  \<^verbatim>\<open>main\<close> and the exit status is not 0.
\<close>

theorem main_failure_exit_status:
  "(getopt E (tl argv) = Inl (GetoptError msg) \<longrightarrow>
      main E argv w = (Inr (Some 1), w\<lparr>log := log w @ [LogError msg, LogError try_help_msg]\<rparr>)
      \<and> exit_status (fst (main E argv w)) = 1)
   \<and> (getopt E (tl argv) = Inl KeyboardInterrupt \<longrightarrow>
      main E argv w = (Inl KeyboardInterrupt, w)
      \<and> exit_status (fst (main E argv w)) = 130)
   \<and> (getopt E (tl argv) = Inr (opts, args)
        \<and> opts_loop opts initial_settings w = (Some st, w1)
        \<and> run_install E st w1 = (Inl ex, w2) \<longrightarrow>
        (ex = Error m \<or> ex = OSError m \<longrightarrow>
           fst (main E argv w) = Inr (Some 1)
           \<and> exit_status (fst (main E argv w)) = 1
           \<and> log (snd (main E argv w))
               = log w2 @ LogError m # (if debug w2 then [Print [], PrintTraceback] else []))
        \<and> (ex = KeyboardInterrupt \<longrightarrow>
           fst (main E argv w) = Inr None
           \<and> exit_status (fst (main E argv w)) = 0
           \<and> fs (snd (main E argv w)) = fs w2))"
proof (intro conjI impI)
  assume g: "getopt E (tl argv) = Inl (GetoptError msg)"
  then show "main E argv w = (Inr (Some 1), w\<lparr>log := log w @ [LogError msg, LogError try_help_msg]\<rparr>)"
    by (simp add: main_def emit_def try_help_msg_def)
  then show "exit_status (fst (main E argv w)) = 1"
    by (simp add: exit_status_def)
next
  assume g: "getopt E (tl argv) = Inl KeyboardInterrupt"
  then show "main E argv w = (Inl KeyboardInterrupt, w)"
    by (simp add: main_def)
  then show "exit_status (fst (main E argv w)) = 130"
    by (simp add: exit_status_def)
next
  assume a: "getopt E (tl argv) = Inr (opts, args)
        \<and> opts_loop opts initial_settings w = (Some st, w1)
        \<and> run_install E st w1 = (Inl ex, w2)"
  then have m: "main E argv w =
           (case Inl ex of
              Inr u \<Rightarrow> (Inr None, w2)
            | Inl (OSError msg) \<Rightarrow> (Inr (Some 1), report_error msg w2)
            | Inl (Error msg) \<Rightarrow> (Inr (Some 1), report_error msg w2)
            | Inl KeyboardInterrupt \<Rightarrow>
                (Inr None, if debug w2 then emit (LogDebug ''user abort'') w2 else w2)
            | Inl e \<Rightarrow> (Inl e, w2))"
    using main_after_options [of E argv opts args w st w1 "Inl ex" w2] by simp
  {
    assume e: "ex = Error m \<or> ex = OSError m"
    then have r: "main E argv w = (Inr (Some 1), report_error m w2)"
      using m by auto
    show "fst (main E argv w) = Inr (Some 1)"
      by (simp add: r)
    show "exit_status (fst (main E argv w)) = 1"
      by (simp add: r exit_status_def)
    show "log (snd (main E argv w))
               = log w2 @ LogError m # (if debug w2 then [Print [], PrintTraceback] else [])"
      by (simp add: r report_error_def emit_def Let_def)
  }
  {
    assume e: "ex = KeyboardInterrupt"
    then have r: "main E argv w =
        (Inr None, if debug w2 then emit (LogDebug ''user abort'') w2 else w2)"
      using m by simp
    show "fst (main E argv w) = Inr None"
      by (simp add: r)
    show "exit_status (fst (main E argv w)) = 0"
      by (simp add: r exit_status_def)
    show "fs (snd (main E argv w)) = fs w2"
      by (simp add: r emit_def)
  }
qed

lemma get_openssl_text_not_found:
  assumes "openssl_version_d E = Raised (OSError m)"
    and "\<forall>d \<in> set DEFAULT_OPENSSLDIRS. fs w d \<noteq> Some Directory"
  shows "get_openssl_text E w =
           (Inr (not_found_msg, [], []),
            w\<lparr>log := log w @ Subprocess [''openssl'', ''version'', ''-d'']
                       # rank_queries (fs w) DEFAULT_OPENSSLDIRS\<rparr>)"
proof -
  let ?wb = "emit (Subprocess [''openssl'', ''version'', ''-d'']) w"
  have g: "get_default_openssldir E w = (Inr None, ?wb)"
    using assms(1) by (simp add: get_default_openssldir_def)
  have "existing_dirs (fs ?wb) (openssl_list None) = []"
    using assms(2) by (intro no_dirs_existing) (simp add: emit_def openssl_list_def)
  then have "ranker None ?wb =
        (Inr (None, 0, 0), ?wb\<lparr>log := log ?wb @ rank_queries (fs ?wb) (openssl_list None)\<rparr>)"
    by (rule ranker_not_found)
  then show ?thesis
    by (simp add: get_openssl_text_def g openssl_text_def emit_def openssl_list_def)
qed

lemma posix_install_after_copy:
  assumes copy: "try_copytree E (abspath E ''./INSTALLDIR'') t w = (Inr (), w1)"
    and reloc: "relocate_python_fx E t (debug w1) ue (fs w1) = (None, f2)"
    and ssl: "openssl_version_d E = Raised (OSError m)"
    and nd: "\<forall>d \<in> set DEFAULT_OPENSSLDIRS. f2 d \<noteq> Some Directory"
    and qt: "f2 (os_path_join t ''Qt'') = None"
  shows "fst (posix_install E t ue False w) = Inr ()"
    and "fs (snd (posix_install E t ue False w)) = f2"
    and "\<exists>evs. log (snd (posix_install E t ue False w)) = log w1 @ evs"
  using copy reloc nd qt
  by (simp_all add: posix_install_def action_defs outside_def emit_def Let_def
        get_openssl_text_not_found [OF ssl] qt_config_def os_path_exists_def)

lemma quiet_getopt:
  "getopt quiet_env (tl (install_argv d)) = Inr ([(''-I'', d)], [])"
  "getopt quiet_env (tl [''install.sh'', ''--bogus'', ''x''])
     = Inl (GetoptError ''option --bogus not recognized'')"
  "getopt interrupted_parse_env args = Inl KeyboardInterrupt"
  by (simp_all add: quiet_env_def install_argv_def interrupted_parse_env_def)

lemma opts_loop_install_dir:
  "opts_loop [(''-I'', d)] initial_settings w = (Some (chosen d), w)"
  by (simp add: opt_step_def chosen_def)

lemma derived_env_simps:
  "getopt interrupted_env = getopt quiet_env"
  "getopt failing_copy_env = getopt quiet_env"
  "abs_target interrupted_env d = d"
  "abs_target failing_copy_env d = d"
  "which interrupted_env = (\<lambda>cmd. None)"
  "which failing_copy_env = (\<lambda>cmd. None)"
  "chdir_fx interrupted_env = (\<lambda>d. None)"
  "chdir_fx failing_copy_env = (\<lambda>d. None)"
  "is_win interrupted_env = False"
  "is_win failing_copy_env = False"
  "abspath interrupted_env p = p"
  "abspath failing_copy_env p = p"
  "copytree_fx interrupted_env = (\<lambda>src dst f. (Some KeyboardInterrupt, f(dst \<mapsto> Directory)))"
  "copytree_fx failing_copy_env =
     (\<lambda>src dst f. (Some (OSError ''No space left on device''), f(dst \<mapsto> Directory)))"
  "relocate_python_fx failing_copy_env = (\<lambda>prefix verbose use_env f. (None, f))"
  "openssl_version_d failing_copy_env = Raised (OSError ''No such file or directory'')"
  by (simp_all add: interrupted_env_def failing_copy_env_def quiet_env_def abs_target_def)

lemma file_fs_new: "file_fs ''/opt/new'' = None"
  by (simp add: file_fs_def)

lemma run_install_interrupted:
  "fst (run_install interrupted_env (chosen ''/opt/new'') (world_of file_fs)) = Inl KeyboardInterrupt"
proof -
  have f: "fs (world_of file_fs) = file_fs" by (simp add: world_of_def)
  have "install interrupted_env ''/opt/new'' False False True True (world_of file_fs)
          = posix_install interrupted_env ''/opt/new'' False False
              ((world_of file_fs)\<lparr>log := log (world_of file_fs)
                  @ [Chdir (script_dir interrupted_env),
                     Print (''Installing ActivePython to '' @ quote ''/opt/new'' @ ''...''),
                     Exists ''/opt/new'']\<rparr>)"
    using install_good_target [of False interrupted_env "world_of file_fs" "''/opt/new''" False True True]
    by (simp add: derived_env_simps f file_fs_new)
  then show ?thesis
    by (simp add: run_install_def chosen_def initial_settings_def
          posix_install_interrupted derived_env_simps)
qed

text \<open>
  Claim C7 says every run of \<^verbatim>\<open>main\<close> that ends in a failure, the user's interrupt
  included, exits with a status that is not 0. It does not: when the interrupt arrives
  during the copy, \<^verbatim>\<open>install\<close> raises \<^verbatim>\<open>KeyboardInterrupt\<close>, \<^verbatim>\<open>main\<close> catches it and
  returns \<^verbatim>\<open>None\<close>, and the process exits with status 0.
\<close>

theorem interrupt_exit_status_counterexample:
  "fst (run_install interrupted_env (chosen ''/opt/new'') (world_of file_fs)) = Inl KeyboardInterrupt
   \<and> fst (main interrupted_env (install_argv ''/opt/new'') (world_of file_fs)) = Inr None
   \<and> exit_status (fst (main interrupted_env (install_argv ''/opt/new'') (world_of file_fs))) = 0"
proof -
  obtain w2 where r: "run_install interrupted_env (chosen ''/opt/new'') (world_of file_fs)
                       = (Inl KeyboardInterrupt, w2)"
    using run_install_interrupted
    by (cases "run_install interrupted_env (chosen ''/opt/new'') (world_of file_fs)") auto
  have g: "getopt interrupted_env (tl (install_argv ''/opt/new'')) = Inr ([(''-I'', ''/opt/new'')], [])"
    by (simp add: derived_env_simps quiet_getopt)
  have "main interrupted_env (install_argv ''/opt/new'') (world_of file_fs)
          = (Inr None, if debug w2 then emit (LogDebug ''user abort'') w2 else w2)"
    using main_after_options [OF g opts_loop_install_dir r] by simp
  then show ?thesis
    using run_install_interrupted by (simp add: exit_status_def)
qed

text \<open>
  An \<^verbatim>\<open>OSError\<close> of \<^verbatim>\<open>copytree\<close> does not leave \<^verbatim>\<open>install\<close>: it is printed there and
  the run goes on, here to exit status 0.
\<close>

lemma copy_error_is_swallowed:
  "fst (main failing_copy_env (install_argv ''/opt/new'') (world_of file_fs)) = Inr None
   \<and> exit_status (fst (main failing_copy_env (install_argv ''/opt/new'') (world_of file_fs))) = 0
   \<and> Print ''No space left on device''
       \<in> set (log (snd (main failing_copy_env (install_argv ''/opt/new'') (world_of file_fs))))"
proof -
  let ?w = "world_of file_fs"
  let ?wa = "?w\<lparr>log := log ?w
                  @ [Chdir (script_dir failing_copy_env),
                     Print (''Installing ActivePython to '' @ quote ''/opt/new'' @ ''...''),
                     Exists ''/opt/new'']\<rparr>"
  let ?f = "file_fs(''/opt/new'' \<mapsto> Directory)"
  let ?wb = "?wa\<lparr>fs := ?f, log := log ?wa @ [CopyTree ''./INSTALLDIR'' ''/opt/new'',
                                              Print ''No space left on device'']\<rparr>"
  have f: "fs ?w = file_fs" by (simp add: world_of_def)
  have i: "install failing_copy_env ''/opt/new'' False False True True ?w
          = posix_install failing_copy_env ''/opt/new'' False False ?wa"
    using install_good_target [of False failing_copy_env ?w "''/opt/new''" False True True]
    by (simp add: derived_env_simps f file_fs_new)
  have c: "try_copytree failing_copy_env (abspath failing_copy_env ''./INSTALLDIR'') ''/opt/new'' ?wa
             = (Inr (), ?wb)"
    using posix_install_copy_error [of failing_copy_env "''/opt/new''" ?wa
        "''No space left on device''" ?f]
    by (simp add: derived_env_simps world_of_def)
  have r: "relocate_python_fx failing_copy_env ''/opt/new'' (debug ?wb) False (fs ?wb) = (None, ?f)"
    by (simp add: derived_env_simps)
  have nd: "\<forall>d \<in> set DEFAULT_OPENSSLDIRS. ?f d \<noteq> Some Directory"
    by (simp add: DEFAULT_OPENSSLDIRS_def file_fs_def)
  have qt: "?f (os_path_join ''/opt/new'' ''Qt'') = None"
    by (simp add: os_path_join_def file_fs_def)
  note p = posix_install_after_copy [OF c r derived_env_simps(16) nd qt]
  obtain w2 where run: "run_install failing_copy_env (chosen ''/opt/new'') ?w = (Inr (), w2)"
    and w2: "w2 = snd (posix_install failing_copy_env ''/opt/new'' False False ?wa)"
    using p(1) i
    by (cases "posix_install failing_copy_env ''/opt/new'' False False ?wa")
       (simp add: run_install_def chosen_def initial_settings_def)
  have g: "getopt failing_copy_env (tl (install_argv ''/opt/new'')) = Inr ([(''-I'', ''/opt/new'')], [])"
    by (simp add: derived_env_simps quiet_getopt)
  have m: "main failing_copy_env (install_argv ''/opt/new'') ?w = (Inr None, w2)"
    using main_after_options [OF g opts_loop_install_dir run] by simp
  obtain evs where "log w2 = log ?wb @ evs"
    using p(3) w2 by auto
  then have "Print ''No space left on device'' \<in> set (log w2)"
    by simp
  then show ?thesis
    by (simp add: m exit_status_def)
qed

theorem main_failure_exit_status_witness:
  "fst (main quiet_env [''install.sh'', ''--bogus'', ''x''] (world_of file_fs)) = Inr (Some 1)
   \<and> exit_status (fst (main quiet_env [''install.sh'', ''--bogus'', ''x''] (world_of file_fs))) = 1
   \<and> fst (main quiet_env (install_argv ''/opt/x'') (world_of file_fs)) = Inr (Some 1)
   \<and> exit_status (fst (main quiet_env (install_argv ''/opt/x'') (world_of file_fs))) = 1
   \<and> fst (main interrupted_env (install_argv ''/opt/new'') (world_of file_fs)) = Inr None
   \<and> fst (main interrupted_parse_env (install_argv ''/opt/new'') (world_of file_fs))
       = Inl KeyboardInterrupt
   \<and> exit_status (fst (main interrupted_parse_env (install_argv ''/opt/new'') (world_of file_fs)))
       = 130"
proof -
  let ?w = "world_of file_fs"
  let ?m = "''cannot install to '' @ quote ''/opt/x'' @ '': exists and is not a directory''"
  have f: "fs ?w = file_fs" by (simp add: world_of_def)
  have x: "file_fs ''/opt/x'' = Some RegularFile" by (simp add: file_fs_def)
  have 1: "fst (main quiet_env [''install.sh'', ''--bogus'', ''x''] ?w) = Inr (Some 1)
     \<and> exit_status (fst (main quiet_env [''install.sh'', ''--bogus'', ''x''] ?w)) = 1"
    using main_failure_exit_status [of quiet_env "[''install.sh'', ''--bogus'', ''x'']"
        "''option --bogus not recognized''" ?w]
      quiet_getopt(2)
    by auto
  obtain w2 where r: "run_install quiet_env (chosen ''/opt/x'') ?w = (Inl (Error ?m), w2)"
    using install_bad_target [of ?w quiet_env "''/opt/x''" False False True True]
    by (simp add: run_install_def chosen_def initial_settings_def quiet_env_simps f x
          not_a_directory_def)
  have g: "getopt quiet_env (tl (install_argv ''/opt/x'')) = Inr ([(''-I'', ''/opt/x'')], [])"
    by (rule quiet_getopt(1))
  have o: "opts_loop [(''-I'', ''/opt/x'')] initial_settings ?w = (Some (chosen ''/opt/x''), ?w)"
    by (rule opts_loop_install_dir)
  have 2: "fst (main quiet_env (install_argv ''/opt/x'') ?w) = Inr (Some 1)
     \<and> exit_status (fst (main quiet_env (install_argv ''/opt/x'') ?w)) = 1"
    using main_failure_exit_status [of quiet_env "install_argv ''/opt/x''" "[]" ?w
        "[(''-I'', ''/opt/x'')]" "[]" "chosen ''/opt/x''" ?w "Error ?m" w2 ?m]
      g o r
    by auto
  obtain w3 where r3: "run_install interrupted_env (chosen ''/opt/new'') ?w
                       = (Inl KeyboardInterrupt, w3)"
    using run_install_interrupted
    by (cases "run_install interrupted_env (chosen ''/opt/new'') ?w") auto
  have g3: "getopt interrupted_env (tl (install_argv ''/opt/new'')) = Inr ([(''-I'', ''/opt/new'')], [])"
    by (simp add: derived_env_simps quiet_getopt)
  have o3: "opts_loop [(''-I'', ''/opt/new'')] initial_settings ?w = (Some (chosen ''/opt/new''), ?w)"
    by (rule opts_loop_install_dir)
  have 3: "fst (main interrupted_env (install_argv ''/opt/new'') ?w) = Inr None"
    using main_failure_exit_status [of interrupted_env "install_argv ''/opt/new''" "[]" ?w
        "[(''-I'', ''/opt/new'')]" "[]" "chosen ''/opt/new''" ?w KeyboardInterrupt w3 "[]"]
      g3 o3 r3
    by auto
  have 4: "fst (main interrupted_parse_env (install_argv ''/opt/new'') ?w) = Inl KeyboardInterrupt
     \<and> exit_status (fst (main interrupted_parse_env (install_argv ''/opt/new'') ?w)) = 130"
    using main_failure_exit_status [of interrupted_parse_env "install_argv ''/opt/new''" "[]" ?w]
      quiet_getopt(3)
    by auto
  from 1 2 3 4 show ?thesis by blast
qed


end
